theory Spec2Isabelle
  imports Complex_Main "HOL-Library.Sublist"
begin

section \<open>TensorFlow Lite conversion requests: \<open>tensorflow/lite/python/convert.py\<close>\<close>

text \<open>
  A shallow embedding of the request builders (\<open>build_toco_flags\<close>,
  \<open>build_toco_convert_protos\<close>, \<open>toco_convert_graph_def\<close>, \<open>convert_saved_model\<close>)
  and of the dispatcher \<open>toco_convert_protos\<close>. Python exceptions are values of the
  type \<open>exn\<close>; a function that may raise returns \<open>exn + 'a\<close>, with \<open>Inl\<close> the raised
  exception. The file system, the search path and the trace of the calls that leave the
  module are an explicit state, the record \<open>world\<close>.
\<close>

subsection \<open>Values\<close>

text \<open>
  Python \<open>bytes\<close> are lists of 8-bit characters. A Python text is held as its UTF-8
  encoding, so that \<open>.encode("utf-8")\<close> is the identity on the representation.
\<close>

type_synonym bytes = string
type_synonym path = string

datatype pystr = Bytes bytes | Text string

datatype exn =
    ConverterError string
  | ValueError string
  | TypeError string
  | IndexError string
  | OSError string
  | RuntimeError string

text \<open>\<open>str(e)\<close>: the message the exception was built with.\<close>

fun str_exn :: "exn \<Rightarrow> string" where
  "str_exn (ConverterError m) = m"
| "str_exn (ValueError m) = m"
| "str_exn (TypeError m) = m"
| "str_exn (IndexError m) = m"
| "str_exn (OSError m) = m"
| "str_exn (RuntimeError m) = m"

text \<open>The TensorFlow element types a caller passes (\<open>dtypes.float32\<close>, ...).\<close>

datatype DType =
    tf_float32 | tf_float16 | tf_float64 | tf_int8 | tf_uint8 | tf_int16 | tf_int32
  | tf_int64 | tf_string | tf_bool | tf_complex64 | tf_resource

text \<open>The enumerations \<open>types_pb2.IODataType\<close> and \<open>toco_flags_pb2.FileFormat\<close>.\<close>

datatype IODataType =
    IO_DATA_TYPE_UNKNOWN | FLOAT | QUANTIZED_UINT8 | INT32 | INT64 | STRING
  | QUANTIZED_INT16 | BOOL | COMPLEX64 | INT8 | FLOAT16 | FLOAT64

datatype FileFormat = FILE_FORMAT_UNKNOWN | TENSORFLOW_GRAPHDEF | TFLITE | GRAPHVIZ_DOT

datatype OpsSet =
    TFLITE_BUILTINS
  | SELECT_TF_OPS
  | TFLITE_BUILTINS_INT8
  | EXPERIMENTAL_TFLITE_BUILTINS_ACTIVATIONS_INT16_WEIGHTS_INT8

definition quantized_inference_types :: "IODataType list" where
  "quantized_inference_types = [QUANTIZED_UINT8, INT8]"

subsection \<open>The protocol buffers\<close>

record TocoFlags =
  input_format :: FileFormat
  output_format :: FileFormat
  inference_type :: IODataType
  inference_input_type :: IODataType
  drop_control_dependency :: bool
  reorder_across_fake_quant :: bool
  allow_custom_ops :: bool
  custom_opdefs :: "string list"
  select_user_tf_ops :: "string list"
  post_training_quantize :: bool
  quantize_to_float16 :: bool
  default_ranges_min :: "real option"
  default_ranges_max :: "real option"
  dump_graphviz_dir :: "string option"
  dump_graphviz_include_video :: bool
  conversion_summary_dir :: "string option"
  enable_select_tf_ops :: bool
  force_select_tf_ops :: bool
  operators_versions :: "(int \<times> int) list"

text \<open>
  Modelled from the spec: the constructor \<open>TocoFlags()\<close> of the generated module
  \<open>toco_flags_pb2\<close>, which is not among the sources. A fresh message has every field
  unset: a flag reads false (the spec's "left false"), a repeated field is empty, an
  optional scalar is absent (\<open>None\<close>) and an enumeration reads its zero value.
\<close>

definition TocoFlags_init :: TocoFlags where
  "TocoFlags_init =
     \<lparr>input_format = FILE_FORMAT_UNKNOWN, output_format = FILE_FORMAT_UNKNOWN,
      inference_type = IO_DATA_TYPE_UNKNOWN, inference_input_type = IO_DATA_TYPE_UNKNOWN,
      drop_control_dependency = False, reorder_across_fake_quant = False,
      allow_custom_ops = False, custom_opdefs = [], select_user_tf_ops = [],
      post_training_quantize = False, quantize_to_float16 = False,
      default_ranges_min = None, default_ranges_max = None,
      dump_graphviz_dir = None, dump_graphviz_include_video = False,
      conversion_summary_dir = None, enable_select_tf_ops = False,
      force_select_tf_ops = False, operators_versions = []\<rparr>"

text \<open>
  \<open>_requires_input_stats\<close>: the inference type or the inference input type is
  quantized, and the conversion is not a post-training quantization.
\<close>

definition requires_input_stats :: "TocoFlags \<Rightarrow> bool" where
  "requires_input_stats toco_flags =
     ((inference_type toco_flags \<in> set quantized_inference_types \<or>
       inference_input_type toco_flags \<in> set quantized_inference_types) \<and>
      \<not> post_training_quantize toco_flags)"

subsection \<open>The parameters of \<open>build_toco_flags\<close>\<close>

text \<open>
  The seventeen named parameters of \<open>build_toco_flags\<close>, in the order of its
  signature. A parameter whose default is \<open>None\<close> is an option.
\<close>

record toco_args =
  kw_inference_type :: DType
  kw_inference_input_type :: "DType option"
  kw_input_format :: FileFormat
  kw_output_format :: FileFormat
  kw_default_ranges_stats :: "(real \<times> real) option"
  kw_drop_control_dependency :: bool
  kw_reorder_across_fake_quant :: bool
  kw_allow_custom_ops :: bool
  kw_custom_opdefs :: "string list option"
  kw_post_training_quantize :: bool
  kw_quantize_to_float16 :: bool
  kw_dump_graphviz_dir :: "string option"
  kw_dump_graphviz_video :: bool
  kw_target_ops :: "OpsSet list option"
  kw_conversion_summary_dir :: "string option"
  kw_select_user_tf_ops :: "string list option"
  kw_operators_versions :: "(int \<times> int) list"

text \<open>The defaults of the signature.\<close>

definition default_toco_args :: toco_args where
  "default_toco_args =
     \<lparr>kw_inference_type = tf_float32, kw_inference_input_type = None,
      kw_input_format = TENSORFLOW_GRAPHDEF, kw_output_format = TFLITE,
      kw_default_ranges_stats = None, kw_drop_control_dependency = True,
      kw_reorder_across_fake_quant = False, kw_allow_custom_ops = False,
      kw_custom_opdefs = None, kw_post_training_quantize = False,
      kw_quantize_to_float16 = False, kw_dump_graphviz_dir = None,
      kw_dump_graphviz_video = False, kw_target_ops = None,
      kw_conversion_summary_dir = None, kw_select_user_tf_ops = None,
      kw_operators_versions = []\<rparr>"

text \<open>
  Python truthiness of an optional list or string: \<open>None\<close> and the empty sequence are
  false.
\<close>

fun truthy :: "'a list option \<Rightarrow> bool" where
  "truthy None = False"
| "truthy (Some xs) = (xs \<noteq> [])"

text \<open>
  \<open>util.convert_dtype_to_tflite_type\<close> lives in another module; it is a parameter of
  the embedding. It raises \<open>ValueError\<close> on a type the converter does not know.
\<close>

type_synonym dtype_conv = "DType \<Rightarrow> exn + IODataType"

text \<open>
  What the generated protocol-buffer classes do when a number is assigned to a field.
  Their declarations (\<open>toco_flags.proto\<close>, \<open>model_flags.proto\<close>) are not among the
  sources, so the field types are parameters of the embedding: the value a \<open>float\<close>
  field reads back after an assignment (the number in single precision), and, for each
  integer field the module assigns, the exception the assignment raises for a value the
  field cannot hold (\<open>None\<close> when the value is stored as it is).
\<close>

record protobuf =
  float_field :: "real \<Rightarrow> real"
  dims_field :: "int \<Rightarrow> exn option"
  op_id_field :: "int \<Rightarrow> exn option"
  op_version_field :: "int \<Rightarrow> exn option"
  saved_model_version_field :: "int \<Rightarrow> exn option"

text \<open>
  The loop over \<open>operators_versions.items()\<close>: one \<open>OperatorVersion\<close> a pair, its
  \<open>op_id\<close> assigned before its \<open>op_version\<close>; the first assignment that raises ends
  the call.
\<close>

fun append_operators_versions ::
  "protobuf \<Rightarrow> (int \<times> int) list \<Rightarrow> TocoFlags \<Rightarrow> exn + TocoFlags" where
  "append_operators_versions pb [] toco = Inr toco"
| "append_operators_versions pb ((op_id, version) # rest) toco =
     (case op_id_field pb op_id of
        Some e \<Rightarrow> Inl e
      | None \<Rightarrow>
          (case op_version_field pb version of
             Some e \<Rightarrow> Inl e
           | None \<Rightarrow>
               append_operators_versions pb rest
                 (toco\<lparr>operators_versions :=
                         operators_versions toco @ [(op_id, version)]\<rparr>)))"

text \<open>
  The conditional statements of \<open>build_toco_flags\<close>, one function each: the flags
  are returned unchanged when the guard is false.
\<close>

definition extend_custom_opdefs :: "string list option \<Rightarrow> TocoFlags \<Rightarrow> TocoFlags" where
  "extend_custom_opdefs opdefs toco =
     (if truthy opdefs then toco\<lparr>custom_opdefs := custom_opdefs toco @ the opdefs\<rparr>
      else toco)"

definition extend_select_user_tf_ops :: "string list option \<Rightarrow> TocoFlags \<Rightarrow> TocoFlags" where
  "extend_select_user_tf_ops ops toco =
     (if truthy ops then toco\<lparr>select_user_tf_ops := select_user_tf_ops toco @ the ops\<rparr>
      else toco)"

definition set_default_ranges ::
  "protobuf \<Rightarrow> (real \<times> real) option \<Rightarrow> TocoFlags \<Rightarrow> TocoFlags" where
  "set_default_ranges pb stats toco =
     (case stats of
        Some (lo, hi) \<Rightarrow>
          toco\<lparr>default_ranges_min := Some (float_field pb lo),
               default_ranges_max := Some (float_field pb hi)\<rparr>
      | None \<Rightarrow> toco)"

definition set_dump_graphviz_dir :: "string option \<Rightarrow> TocoFlags \<Rightarrow> TocoFlags" where
  "set_dump_graphviz_dir d toco =
     (if truthy d then toco\<lparr>dump_graphviz_dir := d\<rparr> else toco)"

definition set_conversion_summary_dir :: "string option \<Rightarrow> TocoFlags \<Rightarrow> TocoFlags" where
  "set_conversion_summary_dir d toco =
     (if truthy d then toco\<lparr>conversion_summary_dir := d\<rparr> else toco)"

definition set_target_ops :: "OpsSet list option \<Rightarrow> TocoFlags \<Rightarrow> TocoFlags" where
  "set_target_ops target_ops toco =
     (if truthy target_ops
      then (let toco = (if SELECT_TF_OPS \<in> set (the target_ops)
                        then toco\<lparr>enable_select_tf_ops := True\<rparr> else toco);
                toco = (if set (the target_ops) = set [SELECT_TF_OPS]
                        then toco\<lparr>force_select_tf_ops := True\<rparr> else toco)
            in toco)
      else toco)"

text \<open>
  \<open>build_toco_flags\<close>, statement by statement. The keywords that name no parameter
  (\<open>**_\<close>) do not reach the body: they are dropped where the call binds its
  arguments.
\<close>

definition build_toco_flags ::
  "protobuf \<Rightarrow> dtype_conv \<Rightarrow> 'a toco_args_scheme \<Rightarrow> exn + TocoFlags" where
  "build_toco_flags pb conv a =
    (let toco = TocoFlags_init;
         toco = toco\<lparr>input_format := kw_input_format a\<rparr>;
         toco = toco\<lparr>output_format := kw_output_format a\<rparr>
     in case conv (kw_inference_type a) of
          Inl e \<Rightarrow> Inl e
        | Inr it \<Rightarrow>
     (let toco = toco\<lparr>inference_type := it\<rparr>
      in case (case kw_inference_input_type a of
                 Some t \<Rightarrow> conv t
               | None \<Rightarrow> Inr (inference_type toco)) of
           Inl e \<Rightarrow> Inl e
         | Inr iit \<Rightarrow>
     (let toco = toco\<lparr>inference_input_type := iit\<rparr>;
          toco = toco\<lparr>drop_control_dependency := kw_drop_control_dependency a\<rparr>;
          toco = toco\<lparr>reorder_across_fake_quant := kw_reorder_across_fake_quant a\<rparr>;
          toco = toco\<lparr>allow_custom_ops := kw_allow_custom_ops a\<rparr>;
          toco = extend_custom_opdefs (kw_custom_opdefs a) toco;
          toco = extend_select_user_tf_ops (kw_select_user_tf_ops a) toco;
          toco = toco\<lparr>post_training_quantize := kw_post_training_quantize a\<rparr>;
          toco = toco\<lparr>quantize_to_float16 := kw_quantize_to_float16 a\<rparr>;
          toco = set_default_ranges pb (kw_default_ranges_stats a) toco;
          toco = set_dump_graphviz_dir (kw_dump_graphviz_dir a) toco;
          toco = toco\<lparr>dump_graphviz_include_video := kw_dump_graphviz_video a\<rparr>;
          toco = set_conversion_summary_dir (kw_conversion_summary_dir a) toco;
          toco = set_target_ops (kw_target_ops a) toco
      in append_operators_versions pb (kw_operators_versions a) toco)))"

subsection \<open>Tensors and the model flags\<close>

text \<open>
  A dimension as the loop over a shape meets it: \<open>None\<close>, a
  \<open>tensor_shape.Dimension\<close> (whose \<open>value\<close> may be \<open>None\<close>), or a plain integer.
  A shape of unknown rank (\<open>shape.rank is None\<close>) is \<open>None\<close>.
\<close>

datatype dim = DimNone | Dimension "int option" | DimInt int

type_synonym TensorShape = "dim list option"

record Tensor =
  tensor_name :: string
  tensor_dtype :: DType
  tensor_shape :: TensorShape

text \<open>
  \<open>ModelFlags.InputArray\<close>, with the two fields of its \<open>shape\<close> message inlined
  (\<open>shape.dims\<close>, \<open>shape.unknown_rank\<close>), and \<open>ModelFlags\<close>.
\<close>

record InputArray =
  name :: string
  data_type :: IODataType
  mean_value :: "real option"
  std_value :: "real option"
  shape_dims :: "int list"
  shape_unknown_rank :: bool

record ModelFlags =
  input_arrays :: "InputArray list"
  output_arrays :: "string list"
  change_concat_input_ranges :: bool
  allow_nonexistent_arrays :: bool
  saved_model_dir :: "string option"
  saved_model_version :: int
  saved_model_tags :: "string list"
  saved_model_exported_names :: "string list"

text \<open>
  Modelled from the spec: the fresh messages of the generated module
  \<open>model_flags_pb2\<close>, which is not among the sources (\<open>model.input_arrays.add()\<close> and
  \<open>ModelFlags()\<close>). Every field is unset: no statistics, no dimensions, a shape that
  is not marked unknown-rank, empty lists.
\<close>

definition InputArray_init :: InputArray where
  "InputArray_init =
     \<lparr>name = [], data_type = IO_DATA_TYPE_UNKNOWN, mean_value = None, std_value = None,
      shape_dims = [], shape_unknown_rank = False\<rparr>"

definition ModelFlags_init :: ModelFlags where
  "ModelFlags_init =
     \<lparr>input_arrays = [], output_arrays = [], change_concat_input_ranges = False,
      allow_nonexistent_arrays = False, saved_model_dir = None, saved_model_version = 0,
      saved_model_tags = [], saved_model_exported_names = []\<rparr>"

subsection \<open>\<open>build_toco_convert_protos\<close>\<close>

text \<open>
  The named parameters of \<open>build_toco_convert_protos\<close> after \<open>input_tensors\<close> and
  \<open>output_tensors\<close>: those it hands to \<open>build_toco_flags\<close>, and its own.
  \<open>debug_info\<close> is held as the serialisation of the \<open>GraphDebugInfo\<close> message.
\<close>

record convert_args = toco_args +
  kw_input_shapes :: "TensorShape list option"
  kw_quantized_input_stats :: "(real \<times> real) list option"
  kw_change_concat_input_ranges :: bool
  kw_allow_nonexistent_arrays :: bool
  kw_debug_info :: "bytes option"
  kw_saved_model_dir :: "string option"
  kw_saved_model_version :: int
  kw_saved_model_tags :: "string list option"
  kw_saved_model_exported_names :: "string list option"

definition default_convert_args :: convert_args where
  "default_convert_args =
     toco_args.extend default_toco_args
       (convert_args.fields None None False False None None 0 None None)"

text \<open>\<open>xs[idx]\<close> for an index that is never negative.\<close>

definition py_index :: "'a list \<Rightarrow> nat \<Rightarrow> exn + 'a" where
  "py_index xs idx =
     (if idx < length xs then Inr (xs ! idx)
      else Inl (IndexError ''list index out of range''))"

text \<open>\<open>for idx, x in enumerate(xs)\<close>: the first exception ends the loop.\<close>

fun enumerate_loop :: "(nat \<Rightarrow> 'a \<Rightarrow> exn + 'b) \<Rightarrow> nat \<Rightarrow> 'a list \<Rightarrow> exn + 'b list" where
  "enumerate_loop f idx [] = Inr []"
| "enumerate_loop f idx (x # xs) =
     (case f idx x of
        Inl e \<Rightarrow> Inl e
      | Inr y \<Rightarrow>
          (case enumerate_loop f (Suc idx) xs of
             Inl e \<Rightarrow> Inl e
           | Inr ys \<Rightarrow> Inr (y # ys)))"

text \<open>The inner loop over the dimensions: \<open>-1\<close> for an unknown one.\<close>

fun dim_value :: "dim \<Rightarrow> int" where
  "dim_value DimNone = -1"
| "dim_value (Dimension None) = -1"
| "dim_value (Dimension (Some v)) = v"
| "dim_value (DimInt v) = v"

text \<open>
  \<open>shape.dims.extend(dims)\<close>: the exception of the first value the field cannot
  hold, if there is one.
\<close>

fun first_refusal :: "(int \<Rightarrow> exn option) \<Rightarrow> int list \<Rightarrow> exn option" where
  "first_refusal field [] = None"
| "first_refusal field (v # vs) =
     (case field v of Some e \<Rightarrow> Some e | None \<Rightarrow> first_refusal field vs)"

text \<open>\<open>util.get_tensor_name\<close> lives in another module; it is a parameter too.\<close>

type_synonym name_fn = "Tensor \<Rightarrow> exn + string"

text \<open>
  The shape the loop uses for the tensor at position \<open>idx\<close>: the tensor's own when
  \<open>input_shapes\<close> is \<open>None\<close>, and \<open>input_shapes[idx]\<close> otherwise.
\<close>

definition input_shape :: "'a convert_args_scheme \<Rightarrow> nat \<Rightarrow> Tensor \<Rightarrow> exn + TensorShape" where
  "input_shape a idx input_tensor =
     (case kw_input_shapes a of
        None \<Rightarrow> Inr (tensor_shape input_tensor)
      | Some shapes \<Rightarrow> py_index shapes idx)"

text \<open>The body of the loop over \<open>input_tensors\<close>.\<close>

definition build_input_array ::
  "protobuf \<Rightarrow> dtype_conv \<Rightarrow> name_fn \<Rightarrow> TocoFlags \<Rightarrow> 'a convert_args_scheme \<Rightarrow> nat \<Rightarrow> Tensor
     \<Rightarrow> exn + InputArray" where
  "build_input_array pb conv get_tensor_name toco a idx input_tensor =
    (let input_array = InputArray_init
     in case (if truthy (kw_saved_model_dir a) then Inr (tensor_name input_tensor)
              else get_tensor_name input_tensor) of
          Inl e \<Rightarrow> Inl e
        | Inr n \<Rightarrow>
     (let input_array = input_array\<lparr>name := n\<rparr>
      in case conv (tensor_dtype input_tensor) of
           Inl e \<Rightarrow> Inl e
         | Inr dt \<Rightarrow>
     (let input_array = input_array\<lparr>data_type := dt\<rparr>
      in case (if requires_input_stats toco \<and> truthy (kw_quantized_input_stats a)
               then (case py_index (the (kw_quantized_input_stats a)) idx of
                       Inl e \<Rightarrow> Inl e
                     | Inr (mean, std) \<Rightarrow>
                         Inr (input_array\<lparr>mean_value := Some (float_field pb mean),
                                           std_value := Some (float_field pb std)\<rparr>))
               else Inr input_array) of
           Inl e \<Rightarrow> Inl e
         | Inr input_array \<Rightarrow>
     (case input_shape a idx input_tensor of
        Inl e \<Rightarrow> Inl e
      | Inr shape \<Rightarrow>
          (case shape of
             Some ds \<Rightarrow>
               (let dims = map dim_value ds
                in case first_refusal (dims_field pb) dims of
                     Some e \<Rightarrow> Inl e
                   | None \<Rightarrow>
                       Inr (input_array\<lparr>shape_dims := shape_dims input_array @ dims,
                                         shape_unknown_rank := False\<rparr>))
           | None \<Rightarrow> Inr (input_array\<lparr>shape_unknown_rank := True\<rparr>))))))"

text \<open>The body of the loop over \<open>output_tensors\<close>.\<close>

definition output_array_name :: "name_fn \<Rightarrow> 'a convert_args_scheme \<Rightarrow> Tensor \<Rightarrow> exn + string" where
  "output_array_name get_tensor_name a output_tensor =
     (if truthy (kw_saved_model_dir a) then Inr (tensor_name output_tensor)
      else get_tensor_name output_tensor)"

text \<open>The statements after the two loops: the remaining fields of the model flags.\<close>

definition set_saved_model_fields ::
  "protobuf \<Rightarrow> string option \<Rightarrow> int \<Rightarrow> string list option \<Rightarrow> string list option \<Rightarrow> ModelFlags
     \<Rightarrow> exn + ModelFlags" where
  "set_saved_model_fields pb dir version tags exported_names model =
    (let model = (if truthy dir then model\<lparr>saved_model_dir := dir\<rparr> else model)
     in case saved_model_version_field pb version of
          Some e \<Rightarrow> Inl e
        | None \<Rightarrow>
    (let model = model\<lparr>saved_model_version := version\<rparr>;
         model = model\<lparr>saved_model_tags :=
                   (if truthy tags then saved_model_tags model @ the tags
                    else saved_model_tags model)\<rparr>;
         model = model\<lparr>saved_model_exported_names :=
                   (if truthy exported_names
                    then saved_model_exported_names model @ the exported_names
                    else saved_model_exported_names model)\<rparr>
     in Inr model))"

definition build_toco_convert_protos ::
  "protobuf \<Rightarrow> dtype_conv \<Rightarrow> name_fn \<Rightarrow> Tensor list \<Rightarrow> Tensor list \<Rightarrow> 'a convert_args_scheme
     \<Rightarrow> exn + (ModelFlags \<times> TocoFlags \<times> bytes option)" where
  "build_toco_convert_protos pb conv get_tensor_name input_tensors output_tensors a =
    (case build_toco_flags pb conv a of
       Inl e \<Rightarrow> Inl e
     | Inr toco \<Rightarrow>
    (let model = ModelFlags_init;
         model = model\<lparr>change_concat_input_ranges := kw_change_concat_input_ranges a\<rparr>
     in case enumerate_loop (build_input_array pb conv get_tensor_name toco a) 0
               input_tensors of
          Inl e \<Rightarrow> Inl e
        | Inr arrays \<Rightarrow>
    (let model = model\<lparr>input_arrays := input_arrays model @ arrays\<rparr>
     in case enumerate_loop (\<lambda>_. output_array_name get_tensor_name a) 0 output_tensors of
          Inl e \<Rightarrow> Inl e
        | Inr names \<Rightarrow>
    (let model = model\<lparr>output_arrays := output_arrays model @ names\<rparr>;
         model = model\<lparr>allow_nonexistent_arrays := kw_allow_nonexistent_arrays a\<rparr>
     in case set_saved_model_fields pb (kw_saved_model_dir a) (kw_saved_model_version a)
               (kw_saved_model_tags a) (kw_saved_model_exported_names a) model of
          Inl e \<Rightarrow> Inl e
        | Inr model \<Rightarrow> Inr (model, toco, kw_debug_info a)))))"

subsection \<open>The request of \<open>toco_convert_graph_def\<close>\<close>

definition quantized_input_stats_message :: string where
  "quantized_input_stats_message =
     ''The `quantized_input_stats` flag must be defined when either '' @
     ''`inference_type` flag or `inference_input_type` flag is set to '' @
     ''tf.int8 or tf.uint8.''"

text \<open>
  The body of the loop over \<open>input_arrays_with_shape\<close>. The test
  \<open>"quantized_input_stats" not in kwargs or not kwargs["quantized_input_stats"]\<close>
  is the falsity of the optional list.
\<close>

definition graph_def_input_array ::
  "protobuf \<Rightarrow> TocoFlags \<Rightarrow> 'a convert_args_scheme \<Rightarrow> nat \<Rightarrow> string \<times> int list
     \<Rightarrow> exn + InputArray" where
  "graph_def_input_array pb toco_flags a idx name_shape =
    (let input_array = InputArray_init
     in case (if requires_input_stats toco_flags
              then (if \<not> truthy (kw_quantized_input_stats a)
                    then Inl (ValueError quantized_input_stats_message)
                    else (case py_index (the (kw_quantized_input_stats a)) idx of
                            Inl e \<Rightarrow> Inl e
                          | Inr (mean, std) \<Rightarrow>
                              Inr (input_array\<lparr>mean_value := Some (float_field pb mean),
                                                std_value := Some (float_field pb std)\<rparr>)))
              else Inr input_array) of
          Inl e \<Rightarrow> Inl e
        | Inr input_array \<Rightarrow>
     (let input_array = input_array\<lparr>name := fst name_shape\<rparr>
      in case first_refusal (dims_field pb) (snd name_shape) of
           Some e \<Rightarrow> Inl e
         | None \<Rightarrow>
             Inr (input_array\<lparr>shape_dims := shape_dims input_array @ snd name_shape\<rparr>)))"

text \<open>
  \<open>toco_convert_graph_def\<close> up to its call of \<open>toco_convert_protos\<close>: the two
  messages it serialises.
\<close>

definition toco_convert_graph_def_protos ::
  "protobuf \<Rightarrow> dtype_conv \<Rightarrow> name_fn \<Rightarrow> (string \<times> int list) list \<Rightarrow> string list
     \<Rightarrow> 'a convert_args_scheme \<Rightarrow> exn + (ModelFlags \<times> TocoFlags)" where
  "toco_convert_graph_def_protos pb conv get_tensor_name input_arrays_with_shape out_arrays a =
    (case build_toco_convert_protos pb conv get_tensor_name [] [] a of
       Inl e \<Rightarrow> Inl e
     | Inr (model_flags, toco_flags, _) \<Rightarrow>
         (case enumerate_loop (graph_def_input_array pb toco_flags a) 0
                 input_arrays_with_shape of
            Inl e \<Rightarrow> Inl e
          | Inr arrays \<Rightarrow>
              (let model_flags =
                     model_flags\<lparr>input_arrays := input_arrays model_flags @ arrays\<rparr>;
                   model_flags =
                     model_flags\<lparr>output_arrays := output_arrays model_flags @ out_arrays\<rparr>
               in Inr (model_flags, toco_flags))))"

subsection \<open>The world outside the module\<close>

text \<open>
  What \<open>toco_convert_protos\<close> can see and change: the files (a path holds bytes or is
  absent), what \<open>distutils.spawn.find_executable\<close> would answer at this moment, and a
  trace of the calls that leave the module, in the order they happen.
\<close>

datatype event =
    InProcessConvert
  | CreateTempFile path
  | Spawn string
  | Unlink path

record world =
  files :: "path \<rightharpoonup> bytes"
  find_executable :: "string \<Rightarrow> path option"
  trace :: "event list"

text \<open>
  The collaborators, as parameters of the embedding: the value the module computed
  for \<open>_toco_from_proto_bin\<close> when it was imported, the in-process converter
  \<open>wrap_toco.wrapped_toco_convert\<close> (it returns the model or raises), the name
  \<open>tempfile.NamedTemporaryFile\<close> picks (or the exception it raises), the run of the
  spawned process (\<open>Popen\<close> raises, or the process ends with an exit code, its combined
  output and the files as it left them), \<open>six.ensure_text\<close> on bytes (\<open>None\<close> for
  \<open>UnicodeDecodeError\<close>) and what \<open>%s\<close> prints for bytes.
\<close>

record env =
  toco_from_proto_bin :: string
  wrapped_toco_convert ::
    "bytes \<Rightarrow> bytes \<Rightarrow> bytes option \<Rightarrow> pystr option \<Rightarrow> bool \<Rightarrow> exn + bytes"
  NamedTemporaryFile :: "world \<Rightarrow> exn + path"
  Popen_communicate :: "string \<Rightarrow> world \<Rightarrow> exn + (int \<times> bytes \<times> (path \<rightharpoonup> bytes))"
  ensure_text :: "bytes \<Rightarrow> string option"
  format_bytes :: "bytes \<Rightarrow> string"

text \<open>
  The statements the module runs when it is imported: the value of
  \<open>_toco_from_proto_bin\<close>, from \<open>EXPERIMENTAL_USE_TOCO_API_DIRECTLY\<close>, the path the
  resource loader gives and \<open>os.path.exists\<close> at that moment.
\<close>

definition module_toco_from_proto_bin :: "bool \<Rightarrow> path \<Rightarrow> (path \<Rightarrow> bool) \<Rightarrow> string" where
  "module_toco_from_proto_bin use_toco_api_directly datafile path_exists =
     (let bin = (if use_toco_api_directly then [] else datafile)
      in if bin \<noteq> [] \<and> \<not> path_exists bin then ''toco_from_protos'' else bin)"

definition newline :: string where
  "newline = [CHR 0x0A]"

text \<open>\<open>_try_convert_to_unicode\<close>, and \<open>%s\<close> of its result.\<close>

definition try_convert_to_unicode :: "(bytes \<Rightarrow> string option) \<Rightarrow> pystr option \<Rightarrow> pystr" where
  "try_convert_to_unicode decode output =
     (case output of
        None \<Rightarrow> Text []
      | Some (Bytes b) \<Rightarrow> (case decode b of Some t \<Rightarrow> Text t | None \<Rightarrow> Bytes b)
      | Some (Text t) \<Rightarrow> Text t)"

fun format_s :: "(bytes \<Rightarrow> string) \<Rightarrow> pystr \<Rightarrow> string" where
  "format_s fb (Text t) = t"
| "format_s fb (Bytes b) = fb b"

definition not_found_message :: string where
  "not_found_message =
     ''Could not find toco_from_protos binary, make sure'' @ newline @
     ''your virtualenv bin directory or pip local bin directory is in your path.'' @ newline @
     ''In particular, if you have installed TensorFlow with --user, make sure you'' @ newline @
     ''add the install directory to your path.'' @ newline @
     newline @
     ''For example:'' @ newline @
     ''Linux: export PATH=$PATH:~/.local/bin/'' @ newline @
     ''Mac: export PATH=$PATH:~/Library/Python/<version#>/bin'' @ newline @
     newline @
     ''Alternative, use virtualenv.''"

definition failure_message :: "env \<Rightarrow> bytes \<Rightarrow> string" where
  "failure_message env stdout =
     (let out = try_convert_to_unicode (ensure_text env) (Some (Bytes stdout));
          err = try_convert_to_unicode (ensure_text env) None
      in ''See console for info.'' @ newline @ format_s (format_bytes env) out @ newline
           @ format_s (format_bytes env) err @ newline)"

text \<open>
  \<open>NamedTemporaryFile(delete=False)\<close>: a new, empty file under the name picked.
  Closing a file writes what was written to it. \<open>os.unlink\<close> inside
  \<open>try ... except (OSError, TypeError): pass\<close>: a name that is still \<open>None\<close> and a
  file that is not there are passed over.
\<close>

definition new_empty_file :: "path \<Rightarrow> world \<Rightarrow> world" where
  "new_empty_file p w =
     w\<lparr>files := (files w)(p \<mapsto> []), trace := trace w @ [CreateTempFile p]\<rparr>"

definition create_temp :: "env \<Rightarrow> world \<Rightarrow> exn + (path \<times> world)" where
  "create_temp env w =
     (case NamedTemporaryFile env w of
        Inl e \<Rightarrow> Inl e
      | Inr p \<Rightarrow> Inr (p, new_empty_file p w))"

definition write_file :: "path \<Rightarrow> bytes \<Rightarrow> world \<Rightarrow> world" where
  "write_file p b w = w\<lparr>files := (files w)(p \<mapsto> b)\<rparr>"

definition unlink :: "path option \<Rightarrow> world \<Rightarrow> world" where
  "unlink filename w =
     (case filename of
        None \<Rightarrow> w
      | Some p \<Rightarrow>
          (if files w p \<noteq> None
           then w\<lparr>files := (files w)(p := None), trace := trace w @ [Unlink p]\<rparr>
           else w))"

text \<open>A text between single quotes, as Python prints a name or a path.\<close>

definition quoted :: "string \<Rightarrow> string" where
  "quoted s = [CHR 0x27] @ s @ [CHR 0x27]"

text \<open>
  \<open>six.ensure_binary\<close>: \<open>TypeError\<close> for what is neither text nor bytes, here
  \<open>None\<close>, with the message Python 3 gives.
\<close>

definition ensure_binary :: "bytes option \<Rightarrow> exn + bytes" where
  "ensure_binary s =
     (case s of
        None \<Rightarrow>
          Inl (TypeError (''not expecting type '' @ quoted (''<class '' @ quoted ''NoneType'' @ ''>'')))
      | Some b \<Rightarrow> Inr b)"

text \<open>\<open>open(output_filename, "rb")\<close> on a path that is not there.\<close>

definition no_such_file :: "path \<Rightarrow> exn" where
  "no_such_file p = OSError (''[Errno 2] No such file or directory: '' @ quoted p)"

text \<open>
  \<open>debug_info_str if debug_info_str else ""\<close>, encoded when it is not bytes already.
\<close>

definition debug_info_bytes :: "pystr option \<Rightarrow> bytes" where
  "debug_info_bytes debug_info_str =
     (case debug_info_str of
        None \<Rightarrow> []
      | Some (Bytes b) \<Rightarrow> b
      | Some (Text t) \<Rightarrow> t)"

text \<open>The command line: the list \<open>cmd\<close> joined with spaces.\<close>

fun join_spaces :: "string list \<Rightarrow> string" where
  "join_spaces [] = []"
| "join_spaces [x] = x"
| "join_spaces (x # y # ys) = x @ '' '' @ join_spaces (y # ys)"

definition command_line ::
  "string \<Rightarrow> path \<Rightarrow> path \<Rightarrow> path \<Rightarrow> path \<Rightarrow> path \<Rightarrow> bool \<Rightarrow> string" where
  "command_line bin model_filename toco_filename input_filename output_filename
       debug_filename enable_mlir_converter =
     (let cmd = [bin, model_filename, toco_filename, input_filename, output_filename,
                 ''--debug_proto_file='' @ debug_filename];
          cmd = (if enable_mlir_converter then cmd @ [''--enable_mlir_converter''] else cmd)
      in join_spaces cmd)"

subsection \<open>\<open>toco_convert_protos\<close>\<close>

text \<open>
  The values of \<open>toco_filename\<close>, \<open>input_filename\<close>, \<open>model_filename\<close> and
  \<open>output_filename\<close> when the \<open>try\<close> block is left: \<open>None\<close> until assigned.
\<close>

type_synonym filenames = "path option \<times> path option \<times> path option \<times> path option"

text \<open>
  The second half of the \<open>try\<close> block, from \<open># Reserve an output file\<close>: the four
  input files are written and closed, their names known.
\<close>

definition run_converter ::
  "env \<Rightarrow> bool \<Rightarrow> path \<Rightarrow> path \<Rightarrow> path \<Rightarrow> path \<Rightarrow> world
     \<Rightarrow> (exn + bytes) \<times> filenames \<times> world" where
  "run_converter env enable_mlir_converter toco_filename input_filename model_filename
       debug_filename w =
    (case create_temp env w of
       Inl e \<Rightarrow> (Inl e, (Some toco_filename, Some input_filename, Some model_filename, None), w)
     | Inr (output_filename, w) \<Rightarrow>
    (let names = (Some toco_filename, Some input_filename, Some model_filename,
                  Some output_filename);
         cmdline = command_line (toco_from_proto_bin env) model_filename toco_filename
                     input_filename output_filename debug_filename enable_mlir_converter
     in case Popen_communicate env cmdline w of
          Inl e \<Rightarrow> (Inl e, names, w)
        | Inr (exitcode, stdout, files_after) \<Rightarrow>
    (let w = w\<lparr>files := files_after, trace := trace w @ [Spawn cmdline]\<rparr>
     in if exitcode = 0
        then (case files w output_filename of
                Some contents \<Rightarrow> (Inr contents, names, w)
              | None \<Rightarrow> (Inl (no_such_file output_filename), names, w))
        else (Inl (ConverterError (failure_message env stdout)), names, w))))"

text \<open>
  The \<open>try\<close> block. The four input files are created in the order of the \<open>with\<close>
  statement; the names are assigned only once all four exist. What was written to a
  file reaches it when the \<open>with\<close> statement closes it, also when \<open>six.ensure_binary\<close>
  raises in between.
\<close>

definition toco_convert_protos_try ::
  "env \<Rightarrow> bytes \<Rightarrow> bytes \<Rightarrow> bytes option \<Rightarrow> pystr option \<Rightarrow> bool \<Rightarrow> world
     \<Rightarrow> (exn + bytes) \<times> filenames \<times> world" where
  "toco_convert_protos_try env model_flags_str toco_flags_str input_data_str debug_info_str
       enable_mlir_converter w =
    (let unassigned = (None, None, None, None)
     in case create_temp env w of
          Inl e \<Rightarrow> (Inl e, unassigned, w)
        | Inr (fp_toco, w) \<Rightarrow>
    (case create_temp env w of
       Inl e \<Rightarrow> (Inl e, unassigned, w)
     | Inr (fp_model, w) \<Rightarrow>
    (case create_temp env w of
       Inl e \<Rightarrow> (Inl e, unassigned, w)
     | Inr (fp_input, w) \<Rightarrow>
    (case create_temp env w of
       Inl e \<Rightarrow> (Inl e, unassigned, w)
     | Inr (fp_debug, w) \<Rightarrow>
    (case ensure_binary input_data_str of
       Inl e \<Rightarrow>
         (Inl e, (Some fp_toco, Some fp_input, Some fp_model, None),
          write_file fp_toco toco_flags_str (write_file fp_model model_flags_str w))
     | Inr input_bytes \<Rightarrow>
    (let w = write_file fp_debug (debug_info_bytes debug_info_str) w;
         w = write_file fp_input input_bytes w;
         w = write_file fp_model model_flags_str w;
         w = write_file fp_toco toco_flags_str w
     in run_converter env enable_mlir_converter fp_toco fp_input fp_model fp_debug w))))))"

text \<open>The \<open>finally\<close> block: the four names of its list, in its order.\<close>

definition cleanup :: "filenames \<Rightarrow> world \<Rightarrow> world" where
  "cleanup names w =
     (case names of
        (toco_filename, input_filename, model_filename, output_filename) \<Rightarrow>
          unlink output_filename
            (unlink model_filename (unlink input_filename (unlink toco_filename w))))"

text \<open>
  \<open>toco_convert_protos\<close>: in process when \<open>enable_mlir_converter\<close> is set or no binary
  is configured; otherwise through the binary, temporary files and a process.
\<close>

definition toco_convert_protos ::
  "env \<Rightarrow> bytes \<Rightarrow> bytes \<Rightarrow> bytes option \<Rightarrow> pystr option \<Rightarrow> bool \<Rightarrow> world
     \<Rightarrow> (exn + bytes) \<times> world" where
  "toco_convert_protos env model_flags_str toco_flags_str input_data_str debug_info_str
       enable_mlir_converter w =
    (if enable_mlir_converter \<or> toco_from_proto_bin env = []
     then (let w = w\<lparr>trace := trace w @ [InProcessConvert]\<rparr>
           in case wrapped_toco_convert env model_flags_str toco_flags_str input_data_str
                     debug_info_str enable_mlir_converter of
                Inr model_str \<Rightarrow> (Inr model_str, w)
              | Inl e \<Rightarrow> (Inl (ConverterError (str_exn e)), w))
     else if find_executable w (toco_from_proto_bin env) = None
     then (Inl (ConverterError not_found_message), w)
     else (case toco_convert_protos_try env model_flags_str toco_flags_str input_data_str
                  debug_info_str enable_mlir_converter w of
             (result, names, w) \<Rightarrow> (result, cleanup names w)))"

subsection \<open>Calls by keyword\<close>

text \<open>
  \<open>convert_saved_model\<close> calls \<open>build_toco_flags(**kwargs)\<close>. The dictionary is held
  in two parts: for each of the seventeen parameters the value given under its name, if
  any, and the remaining entries, whose names are no parameter's and whose values can be
  anything. The call binds each parameter to the value given or to the default of the
  signature; the remaining entries become \<open>**_\<close>, which the body never reads.
\<close>

datatype pyval =
    PyNone
  | PyBool bool
  | PyInt int
  | PyFloat real
  | PyStr string
  | PyList "pyval list"

record toco_kwargs =
  given_inference_type :: "DType option"
  given_inference_input_type :: "DType option"
  given_input_format :: "FileFormat option"
  given_output_format :: "FileFormat option"
  given_default_ranges_stats :: "(real \<times> real) option"
  given_drop_control_dependency :: "bool option"
  given_reorder_across_fake_quant :: "bool option"
  given_allow_custom_ops :: "bool option"
  given_custom_opdefs :: "string list option"
  given_post_training_quantize :: "bool option"
  given_quantize_to_float16 :: "bool option"
  given_dump_graphviz_dir :: "string option"
  given_dump_graphviz_video :: "bool option"
  given_target_ops :: "OpsSet list option"
  given_conversion_summary_dir :: "string option"
  given_select_user_tf_ops :: "string list option"
  given_operators_versions :: "(int \<times> int) list option"
  unrecognized :: "string \<rightharpoonup> pyval"

text \<open>A keyword that was given, or the default.\<close>

fun given_or :: "'a option \<Rightarrow> 'a \<Rightarrow> 'a" where
  "given_or None d = d"
| "given_or (Some v) d = v"

definition bind_toco_args :: "toco_kwargs \<Rightarrow> toco_args" where
  "bind_toco_args kw =
     \<lparr>kw_inference_type = given_or (given_inference_type kw) tf_float32,
      kw_inference_input_type = given_inference_input_type kw,
      kw_input_format = given_or (given_input_format kw) TENSORFLOW_GRAPHDEF,
      kw_output_format = given_or (given_output_format kw) TFLITE,
      kw_default_ranges_stats = given_default_ranges_stats kw,
      kw_drop_control_dependency = given_or (given_drop_control_dependency kw) True,
      kw_reorder_across_fake_quant = given_or (given_reorder_across_fake_quant kw) False,
      kw_allow_custom_ops = given_or (given_allow_custom_ops kw) False,
      kw_custom_opdefs = given_custom_opdefs kw,
      kw_post_training_quantize = given_or (given_post_training_quantize kw) False,
      kw_quantize_to_float16 = given_or (given_quantize_to_float16 kw) False,
      kw_dump_graphviz_dir = given_dump_graphviz_dir kw,
      kw_dump_graphviz_video = given_or (given_dump_graphviz_video kw) False,
      kw_target_ops = given_target_ops kw,
      kw_conversion_summary_dir = given_conversion_summary_dir kw,
      kw_select_user_tf_ops = given_select_user_tf_ops kw,
      kw_operators_versions = given_or (given_operators_versions kw) []\<rparr>"

text \<open>\<open>build_toco_flags(**kw)\<close>.\<close>

definition build_toco_flags_kw :: "protobuf \<Rightarrow> dtype_conv \<Rightarrow> toco_kwargs \<Rightarrow> exn + TocoFlags" where
  "build_toco_flags_kw pb conv kw = build_toco_flags pb conv (bind_toco_args kw)"

text \<open>No keyword given.\<close>

definition no_kwargs :: toco_kwargs where
  "no_kwargs =
     \<lparr>given_inference_type = None, given_inference_input_type = None,
      given_input_format = None, given_output_format = None,
      given_default_ranges_stats = None, given_drop_control_dependency = None,
      given_reorder_across_fake_quant = None, given_allow_custom_ops = None,
      given_custom_opdefs = None, given_post_training_quantize = None,
      given_quantize_to_float16 = None, given_dump_graphviz_dir = None,
      given_dump_graphviz_video = None, given_target_ops = None,
      given_conversion_summary_dir = None, given_select_user_tf_ops = None,
      given_operators_versions = None, unrecognized = Map.empty\<rparr>"

subsection \<open>The entry points that convert\<close>

text \<open>
  What the entry points use of the other modules, as one record of parameters: the
  field types of the protocol buffers, the two functions of \<open>util\<close>, and
  \<open>SerializeToString\<close> of the two messages.
\<close>

record modules =
  proto :: protobuf
  convert_dtype_to_tflite_type :: dtype_conv
  get_tensor_name :: name_fn
  serialize_model_flags :: "ModelFlags \<Rightarrow> bytes"
  serialize_toco_flags :: "TocoFlags \<Rightarrow> bytes"

text \<open>\<open>input_data\<close> is held as \<open>input_data.SerializeToString()\<close>.\<close>

definition toco_convert_graph_def ::
  "modules \<Rightarrow> env \<Rightarrow> bytes \<Rightarrow> (string \<times> int list) list \<Rightarrow> string list \<Rightarrow> bool
     \<Rightarrow> 'a convert_args_scheme \<Rightarrow> world \<Rightarrow> (exn + bytes) \<times> world" where
  "toco_convert_graph_def m env input_data input_arrays_with_shape out_arrays
       enable_mlir_converter a w =
    (case toco_convert_graph_def_protos (proto m) (convert_dtype_to_tflite_type m)
            (get_tensor_name m) input_arrays_with_shape out_arrays a of
       Inl e \<Rightarrow> (Inl e, w)
     | Inr (model_flags, toco_flags) \<Rightarrow>
         toco_convert_protos env (serialize_model_flags m model_flags)
           (serialize_toco_flags m toco_flags) (Some input_data) None
           enable_mlir_converter w)"

definition toco_convert_impl ::
  "modules \<Rightarrow> env \<Rightarrow> bytes \<Rightarrow> Tensor list \<Rightarrow> Tensor list \<Rightarrow> bool
     \<Rightarrow> 'a convert_args_scheme \<Rightarrow> world \<Rightarrow> (exn + bytes) \<times> world" where
  "toco_convert_impl m env input_data input_tensors output_tensors enable_mlir_converter a w =
    (case build_toco_convert_protos (proto m) (convert_dtype_to_tflite_type m)
            (get_tensor_name m) input_tensors output_tensors a of
       Inl e \<Rightarrow> (Inl e, w)
     | Inr (model_flags, toco_flags, debug_info) \<Rightarrow>
         (let debug_info_str = (case debug_info of Some d \<Rightarrow> Some (Bytes d) | None \<Rightarrow> None)
          in toco_convert_protos env (serialize_model_flags m model_flags)
               (serialize_toco_flags m toco_flags) (Some input_data) debug_info_str
               enable_mlir_converter w))"

text \<open>
  \<open>convert_saved_model\<close>: the model flags, then the conversion flags from the
  keywords, then the dispatch with \<open>enable_mlir_converter=True\<close> and without input data
  or debug information.
\<close>

definition convert_saved_model ::
  "modules \<Rightarrow> env \<Rightarrow> string option \<Rightarrow> int \<Rightarrow> string list option \<Rightarrow> string list option
     \<Rightarrow> toco_kwargs \<Rightarrow> world \<Rightarrow> (exn + bytes) \<times> world" where
  "convert_saved_model m env dir version tags exported_names kw w =
    (case set_saved_model_fields (proto m) dir version tags exported_names ModelFlags_init of
       Inl e \<Rightarrow> (Inl e, w)
     | Inr model_flags \<Rightarrow>
         (case build_toco_flags_kw (proto m) (convert_dtype_to_tflite_type m) kw of
            Inl e \<Rightarrow> (Inl e, w)
          | Inr toco_flags \<Rightarrow>
              toco_convert_protos env (serialize_model_flags m model_flags)
                (serialize_toco_flags m toco_flags) None None True w))"

subsection \<open>Conditions used in the statements\<close>

text \<open>Every operator id and version of the list is a value its field holds.\<close>

definition versions_accepted :: "protobuf \<Rightarrow> (int \<times> int) list \<Rightarrow> bool" where
  "versions_accepted pb vs =
     list_all (\<lambda>(op_id, version). op_id_field pb op_id = None \<and> op_version_field pb version = None) vs"

text \<open>The events a call added to the trace.\<close>

definition new_events :: "world \<Rightarrow> world \<Rightarrow> event list" where
  "new_events w w' = drop (length (trace w)) (trace w')"

text \<open>The second world has the trace of the first and, after it, no in-process call.\<close>

definition out_of_process_only :: "world \<Rightarrow> world \<Rightarrow> bool" where
  "out_of_process_only w w' =
     (\<exists>evs. trace w' = trace w @ evs \<and> InProcessConvert \<notin> set evs)"

subsection \<open>Instances for the worked examples\<close>

text \<open>
  An instance of the element-type conversion, used where a property is run on concrete
  arguments: the supported types map to their enumeration value, \<open>tf_resource\<close>
  is refused.
\<close>

fun conv_example :: dtype_conv where
  "conv_example tf_float32 = Inr FLOAT"
| "conv_example tf_float16 = Inr FLOAT16"
| "conv_example tf_float64 = Inr FLOAT64"
| "conv_example tf_int8 = Inr INT8"
| "conv_example tf_uint8 = Inr QUANTIZED_UINT8"
| "conv_example tf_int16 = Inr QUANTIZED_INT16"
| "conv_example tf_int32 = Inr INT32"
| "conv_example tf_int64 = Inr INT64"
| "conv_example tf_string = Inr STRING"
| "conv_example tf_bool = Inr BOOL"
| "conv_example tf_complex64 = Inr COMPLEX64"
| "conv_example tf_resource = Inl (ValueError ''Unsupported tf.dtype'')"

text \<open>
  An instance of the field types. The integer fields hold the 32-bit signed range. The
  float field agrees with rounding to single precision on the numbers the examples
  use: \<open>0\<close>, \<open>1\<close>, \<open>127.5\<close> and \<open>128\<close> are single-precision numbers, and \<open>0.1\<close> reads back
  as \<open>13421773 / 2^27\<close>.
\<close>

definition int32_example :: "int \<Rightarrow> exn option" where
  "int32_example v =
     (if - 2147483648 \<le> v \<and> v \<le> 2147483647 then None
      else Some (ValueError ''Value out of range''))"

definition float32_example :: "real \<Rightarrow> real" where
  "float32_example x = (if x = 1 / 10 then 13421773 / 134217728 else x)"

definition pb_example :: protobuf where
  "pb_example =
     \<lparr>float_field = float32_example, dims_field = int32_example,
      op_id_field = int32_example, op_version_field = int32_example,
      saved_model_version_field = int32_example\<rparr>"

text \<open>An instance of \<open>util.get_tensor_name\<close>: the name up to its colon.\<close>

definition name_example :: name_fn where
  "name_example t = Inr (takeWhile (\<lambda>c. c \<noteq> CHR '':'') (tensor_name t))"

text \<open>
  An instance of the world and of the collaborators: no file yet, the binary on the
  search path; temporary files named \<open>/tmp/tmp0\<close>, \<open>/tmp/tmp1\<close>, ... in the order
  they are asked for; a backend process that writes a model to the fifth of them and
  exits with code 0, and one that prints a diagnostic and exits with code 1.
\<close>

definition tmp_names :: "path list" where
  "tmp_names = [''/tmp/tmp0'', ''/tmp/tmp1'', ''/tmp/tmp2'', ''/tmp/tmp3'', ''/tmp/tmp4'',
                ''/tmp/tmp5'']"

definition fresh_tmp :: "world \<Rightarrow> exn + path" where
  "fresh_tmp w =
     (case find (\<lambda>p. files w p = None) tmp_names of
        Some p \<Rightarrow> Inr p
      | None \<Rightarrow> Inl (OSError ''No usable temporary file name found''))"

definition env_example :: env where
  "env_example =
     \<lparr>toco_from_proto_bin = ''toco_from_protos'',
      wrapped_toco_convert = (\<lambda>model_flags_str toco_flags_str input_data_str debug_info_str
                                enable_mlir_converter. Inr ''TFL3''),
      NamedTemporaryFile = fresh_tmp,
      Popen_communicate = (\<lambda>cmdline w. Inr (0, [], (files w)(''/tmp/tmp4'' \<mapsto> ''TFL3''))),
      ensure_text = Some,
      format_bytes = (\<lambda>b. b)\<rparr>"

definition env_failing :: env where
  "env_failing =
     env_example\<lparr>Popen_communicate := (\<lambda>cmdline w. Inr (1, ''unsupported op'', files w))\<rparr>"

definition world_example :: world where
  "world_example =
     \<lparr>files = Map.empty,
      find_executable = (\<lambda>n. if n = ''toco_from_protos''
                              then Some ''/usr/bin/toco_from_protos'' else None),
      trace = []\<rparr>"

definition modules_example :: modules where
  "modules_example =
     \<lparr>proto = pb_example, convert_dtype_to_tflite_type = conv_example,
      get_tensor_name = name_example,
      serialize_model_flags = (\<lambda>model_flags. ''model-flags''),
      serialize_toco_flags = (\<lambda>toco_flags. ''toco-flags'')\<rparr>"

text \<open>The call the examples of the dispatch run: through the binary, on the example world.\<close>

definition example_dispatch :: "env \<Rightarrow> (exn + bytes) \<times> world" where
  "example_dispatch env =
     toco_convert_protos env ''model-flags'' ''toco-flags'' (Some ''graph'') None False
       world_example"

section \<open>Properties\<close>

subsection \<open>The flags built by \<open>build_toco_flags\<close>\<close>

lemma append_operators_versions_preserves:
  "append_operators_versions pb vs toco = Inr toco' \<Longrightarrow>
     toco' = toco\<lparr>operators_versions := operators_versions toco @ vs\<rparr>"
proof (induction vs arbitrary: toco)
  case Nil
  then show ?case by simp
next
  case (Cons v vs)
  obtain op_id version where v: "v = (op_id, version)" by (cases v)
  from Cons.prems v have
    "append_operators_versions pb vs
       (toco\<lparr>operators_versions := operators_versions toco @ [(op_id, version)]\<rparr>) = Inr toco'"
    by (simp split: option.splits)
  from Cons.IH [OF this] v show ?case by simp
qed

lemma append_operators_versions_succeeds:
  "versions_accepted pb vs \<Longrightarrow>
     append_operators_versions pb vs toco =
       Inr (toco\<lparr>operators_versions := operators_versions toco @ vs\<rparr>)"
proof (induction vs arbitrary: toco)
  case Nil
  then show ?case by simp
next
  case (Cons v vs)
  obtain op_id version where v: "v = (op_id, version)" by (cases v)
  from Cons.prems v have ok: "op_id_field pb op_id = None" "op_version_field pb version = None"
    and rest: "versions_accepted pb vs"
    by (simp_all add: versions_accepted_def)
  show ?case using Cons.IH [OF rest] v ok by simp
qed

lemma extend_custom_opdefs_fields:
  "inference_type (extend_custom_opdefs x toco) = inference_type toco"
  "inference_input_type (extend_custom_opdefs x toco) = inference_input_type toco"
  "enable_select_tf_ops (extend_custom_opdefs x toco) = enable_select_tf_ops toco"
  "force_select_tf_ops (extend_custom_opdefs x toco) = force_select_tf_ops toco"
  "post_training_quantize (extend_custom_opdefs x toco) = post_training_quantize toco"
  by (simp_all add: extend_custom_opdefs_def)

lemma extend_select_user_tf_ops_fields:
  "inference_type (extend_select_user_tf_ops x toco) = inference_type toco"
  "inference_input_type (extend_select_user_tf_ops x toco) = inference_input_type toco"
  "enable_select_tf_ops (extend_select_user_tf_ops x toco) = enable_select_tf_ops toco"
  "force_select_tf_ops (extend_select_user_tf_ops x toco) = force_select_tf_ops toco"
  "post_training_quantize (extend_select_user_tf_ops x toco) = post_training_quantize toco"
  by (simp_all add: extend_select_user_tf_ops_def)

lemma set_default_ranges_fields:
  "inference_type (set_default_ranges pb r toco) = inference_type toco"
  "inference_input_type (set_default_ranges pb r toco) = inference_input_type toco"
  "enable_select_tf_ops (set_default_ranges pb r toco) = enable_select_tf_ops toco"
  "force_select_tf_ops (set_default_ranges pb r toco) = force_select_tf_ops toco"
  "post_training_quantize (set_default_ranges pb r toco) = post_training_quantize toco"
  by (simp_all add: set_default_ranges_def split: option.splits prod.splits)

lemma set_dump_graphviz_dir_fields:
  "inference_type (set_dump_graphviz_dir d toco) = inference_type toco"
  "inference_input_type (set_dump_graphviz_dir d toco) = inference_input_type toco"
  "enable_select_tf_ops (set_dump_graphviz_dir d toco) = enable_select_tf_ops toco"
  "force_select_tf_ops (set_dump_graphviz_dir d toco) = force_select_tf_ops toco"
  "post_training_quantize (set_dump_graphviz_dir d toco) = post_training_quantize toco"
  by (simp_all add: set_dump_graphviz_dir_def)

lemma set_conversion_summary_dir_fields:
  "inference_type (set_conversion_summary_dir d toco) = inference_type toco"
  "inference_input_type (set_conversion_summary_dir d toco) = inference_input_type toco"
  "enable_select_tf_ops (set_conversion_summary_dir d toco) = enable_select_tf_ops toco"
  "force_select_tf_ops (set_conversion_summary_dir d toco) = force_select_tf_ops toco"
  "post_training_quantize (set_conversion_summary_dir d toco) = post_training_quantize toco"
  by (simp_all add: set_conversion_summary_dir_def)

lemma set_target_ops_fields:
  "inference_type (set_target_ops t toco) = inference_type toco"
  "inference_input_type (set_target_ops t toco) = inference_input_type toco"
  "post_training_quantize (set_target_ops t toco) = post_training_quantize toco"
  "enable_select_tf_ops (set_target_ops t toco) =
     (if truthy t \<and> SELECT_TF_OPS \<in> set (the t) then True else enable_select_tf_ops toco)"
  "force_select_tf_ops (set_target_ops t toco) =
     (if truthy t \<and> set (the t) = {SELECT_TF_OPS} then True else force_select_tf_ops toco)"
  by (simp_all add: set_target_ops_def Let_def)

lemmas stage_fields =
  extend_custom_opdefs_fields extend_select_user_tf_ops_fields set_default_ranges_fields
  set_dump_graphviz_dir_fields set_conversion_summary_dir_fields set_target_ops_fields

text \<open>The flags a successful build returns, field by field.\<close>

lemma build_toco_flags_fields:
  assumes "build_toco_flags pb conv a = Inr toco"
  shows "enable_select_tf_ops toco =
           (truthy (kw_target_ops a) \<and> SELECT_TF_OPS \<in> set (the (kw_target_ops a)))"
    and "force_select_tf_ops toco =
           (truthy (kw_target_ops a) \<and> set (the (kw_target_ops a)) = {SELECT_TF_OPS})"
    and "post_training_quantize toco = kw_post_training_quantize a"
    and "conv (kw_inference_type a) = Inr (inference_type toco)"
    and "(case kw_inference_input_type a of
            Some t \<Rightarrow> conv t
          | None \<Rightarrow> Inr (inference_type toco)) = Inr (inference_input_type toco)"
proof -
  obtain it where it: "conv (kw_inference_type a) = Inr it"
    using assms
    by (cases "conv (kw_inference_type a)") (simp_all add: build_toco_flags_def Let_def)
  obtain iit where iit:
    "(case kw_inference_input_type a of Some t \<Rightarrow> conv t | None \<Rightarrow> Inr it) = Inr iit"
    using assms it
    by (cases "kw_inference_input_type a"; cases "conv (the (kw_inference_input_type a))")
       (simp_all add: build_toco_flags_def Let_def)
  obtain before where loop:
      "append_operators_versions pb (kw_operators_versions a) before = Inr toco"
    and b1: "enable_select_tf_ops before =
           (truthy (kw_target_ops a) \<and> SELECT_TF_OPS \<in> set (the (kw_target_ops a)))"
    and b2: "force_select_tf_ops before =
           (truthy (kw_target_ops a) \<and> set (the (kw_target_ops a)) = {SELECT_TF_OPS})"
    and b3: "post_training_quantize before = kw_post_training_quantize a"
    and b4: "inference_type before = it"
    and b5: "inference_input_type before = iit"
    using assms it iit
    by (cases "kw_inference_input_type a")
       (simp_all add: build_toco_flags_def Let_def stage_fields TocoFlags_init_def)
  note after = append_operators_versions_preserves [OF loop]
  show "enable_select_tf_ops toco =
           (truthy (kw_target_ops a) \<and> SELECT_TF_OPS \<in> set (the (kw_target_ops a)))"
    using b1 by (simp add: after)
  show "force_select_tf_ops toco =
           (truthy (kw_target_ops a) \<and> set (the (kw_target_ops a)) = {SELECT_TF_OPS})"
    using b2 by (simp add: after)
  show "post_training_quantize toco = kw_post_training_quantize a"
    using b3 by (simp add: after)
  have ity: "inference_type toco = it" using b4 by (simp add: after)
  have iity: "inference_input_type toco = iit" using b5 by (simp add: after)
  show "conv (kw_inference_type a) = Inr (inference_type toco)" using it ity by simp
  show "(case kw_inference_input_type a of
            Some t \<Rightarrow> conv t
          | None \<Rightarrow> Inr (inference_type toco)) = Inr (inference_input_type toco)"
    using iit ity iity by (cases "kw_inference_input_type a") simp_all
qed

text \<open>
  A build succeeds as soon as the element types convert and the operator versions are
  values their fields hold.
\<close>

lemma build_toco_flags_succeeds:
  assumes "conv (kw_inference_type a) = Inr it"
    and "(case kw_inference_input_type a of Some t \<Rightarrow> conv t | None \<Rightarrow> Inr it) = Inr iit"
    and "versions_accepted pb (kw_operators_versions a)"
  shows "\<exists>toco. build_toco_flags pb conv a = Inr toco"
  using assms
  by (cases "kw_inference_input_type a")
     (simp_all add: build_toco_flags_def Let_def append_operators_versions_succeeds)

lemma default_toco_args_sel:
  "kw_inference_type default_toco_args = tf_float32"
  "kw_inference_input_type default_toco_args = None"
  "kw_target_ops default_toco_args = None"
  "kw_post_training_quantize default_toco_args = False"
  "kw_operators_versions default_toco_args = []"
  by (simp_all add: default_toco_args_def)

lemma versions_accepted_Nil: "versions_accepted pb []"
  by (simp add: versions_accepted_def)

text \<open>
  C7: for any inference type that converts, a call to \<open>build_toco_flags\<close> without an
  explicit \<open>inference_input_type\<close> returns flags whose \<open>inference_input_type\<close>
  equals their \<open>inference_type\<close>; when an explicit \<open>inference_input_type\<close> is
  supplied (and converts), its converted value is used instead. The call returns
  whenever the operator versions, if any are given, are values their fields hold.
\<close>

theorem build_toco_flags_inference_input_type:
  assumes "conv (kw_inference_type a) = Inr it"
    and "versions_accepted pb (kw_operators_versions a)"
  shows "(kw_inference_input_type a = None \<longrightarrow>
           (\<exists>toco. build_toco_flags pb conv a = Inr toco \<and>
               inference_type toco = it \<and> inference_input_type toco = inference_type toco)) \<and>
         (\<forall>t iit. kw_inference_input_type a = Some t \<and> conv t = Inr iit \<longrightarrow>
           (\<exists>toco. build_toco_flags pb conv a = Inr toco \<and>
               inference_type toco = it \<and> inference_input_type toco = iit))"
proof (intro conjI impI allI)
  assume n: "kw_inference_input_type a = None"
  then obtain toco where b: "build_toco_flags pb conv a = Inr toco"
    using build_toco_flags_succeeds [of conv a it it pb] assms by auto
  from build_toco_flags_fields(4,5) [OF b] assms n
  have "inference_type toco = it \<and> inference_input_type toco = inference_type toco"
    by simp
  with b show "\<exists>toco. build_toco_flags pb conv a = Inr toco \<and>
               inference_type toco = it \<and> inference_input_type toco = inference_type toco"
    by blast
next
  fix t iit
  assume s: "kw_inference_input_type a = Some t \<and> conv t = Inr iit"
  then obtain toco where b: "build_toco_flags pb conv a = Inr toco"
    using build_toco_flags_succeeds [of conv a it iit pb] assms by auto
  from build_toco_flags_fields(4,5) [OF b] assms s
  have "inference_type toco = it \<and> inference_input_type toco = iit"
    by simp
  with b show "\<exists>toco. build_toco_flags pb conv a = Inr toco \<and>
               inference_type toco = it \<and> inference_input_type toco = iit"
    by blast
qed

text \<open>C7 run on \<open>inference_type = tf.uint8\<close>, without and with an explicit input type.\<close>

theorem build_toco_flags_inference_input_type_witness:
  "(\<exists>toco. build_toco_flags pb_example conv_example
       (default_toco_args\<lparr>kw_inference_type := tf_uint8\<rparr>) = Inr toco \<and>
       inference_type toco = QUANTIZED_UINT8 \<and> inference_input_type toco = inference_type toco) \<and>
   (\<exists>toco. build_toco_flags pb_example conv_example
       (default_toco_args\<lparr>kw_inference_type := tf_uint8,
          kw_inference_input_type := Some tf_float32\<rparr>) = Inr toco \<and>
       inference_type toco = QUANTIZED_UINT8 \<and> inference_input_type toco = FLOAT)"
proof -
  let ?a1 = "default_toco_args\<lparr>kw_inference_type := tf_uint8\<rparr>"
  let ?a2 = "default_toco_args\<lparr>kw_inference_type := tf_uint8,
               kw_inference_input_type := Some tf_float32\<rparr>"
  have h1: "conv_example (kw_inference_type ?a1) = Inr QUANTIZED_UINT8" by simp
  have h2: "conv_example (kw_inference_type ?a2) = Inr QUANTIZED_UINT8" by simp
  have v1: "versions_accepted pb_example (kw_operators_versions ?a1)"
    by (simp add: default_toco_args_sel versions_accepted_Nil)
  have v2: "versions_accepted pb_example (kw_operators_versions ?a2)"
    by (simp add: default_toco_args_sel versions_accepted_Nil)
  have n1: "kw_inference_input_type ?a1 = None" by (simp add: default_toco_args_sel)
  have n2: "kw_inference_input_type ?a2 = Some tf_float32 \<and> conv_example tf_float32 = Inr FLOAT"
    by simp
  from build_toco_flags_inference_input_type [of conv_example ?a1 QUANTIZED_UINT8 pb_example]
    h1 v1 n1
  have A: "\<exists>toco. build_toco_flags pb_example conv_example ?a1 = Inr toco \<and>
       inference_type toco = QUANTIZED_UINT8 \<and> inference_input_type toco = inference_type toco"
    by blast
  from build_toco_flags_inference_input_type [of conv_example ?a2 QUANTIZED_UINT8 pb_example]
    h2 v2 n2
  have B: "\<exists>toco. build_toco_flags pb_example conv_example ?a2 = Inr toco \<and>
       inference_type toco = QUANTIZED_UINT8 \<and> inference_input_type toco = FLOAT"
    by blast
  show ?thesis using A B by (rule conjI)
qed

text \<open>
  C8: when \<open>target_ops\<close> holds exactly \<open>SELECT_TF_OPS\<close>, the flags have
  \<open>enable_select_tf_ops\<close> and \<open>force_select_tf_ops\<close> both true; when it contains
  both \<open>TFLITE_BUILTINS\<close> and \<open>SELECT_TF_OPS\<close> (with or without further options),
  \<open>enable_select_tf_ops\<close> is true and \<open>force_select_tf_ops\<close> stays false.
\<close>

theorem build_toco_flags_target_ops:
  assumes "build_toco_flags pb conv a = Inr toco" and "kw_target_ops a = Some ops"
  shows "(set ops = {SELECT_TF_OPS} \<longrightarrow>
            enable_select_tf_ops toco \<and> force_select_tf_ops toco) \<and>
         (TFLITE_BUILTINS \<in> set ops \<and> SELECT_TF_OPS \<in> set ops \<longrightarrow>
            enable_select_tf_ops toco \<and> \<not> force_select_tf_ops toco)"
proof -
  have ne: "SELECT_TF_OPS \<in> set ops \<Longrightarrow> truthy (Some ops)"
    by (cases ops) auto
  have neq: "TFLITE_BUILTINS \<in> set ops \<Longrightarrow> set ops \<noteq> {SELECT_TF_OPS}"
    by auto
  show ?thesis
    using build_toco_flags_fields(1,2) [OF assms(1)] assms(2) ne neq
    by auto
qed

text \<open>
  C8 run on \<open>[SELECT_TF_OPS]\<close> and on a list that holds both options and a third one.
\<close>

theorem build_toco_flags_target_ops_witness:
  "(\<exists>toco. build_toco_flags pb_example conv_example
        (default_toco_args\<lparr>kw_target_ops := Some [SELECT_TF_OPS]\<rparr>) = Inr toco \<and>
      enable_select_tf_ops toco \<and> force_select_tf_ops toco) \<and>
   (\<exists>toco. build_toco_flags pb_example conv_example
        (default_toco_args\<lparr>kw_target_ops :=
           Some [TFLITE_BUILTINS, SELECT_TF_OPS, TFLITE_BUILTINS_INT8]\<rparr>) = Inr toco \<and>
      enable_select_tf_ops toco \<and> \<not> force_select_tf_ops toco)"
proof -
  let ?a1 = "default_toco_args\<lparr>kw_target_ops := Some [SELECT_TF_OPS]\<rparr>"
  let ?a2 = "default_toco_args\<lparr>kw_target_ops :=
               Some [TFLITE_BUILTINS, SELECT_TF_OPS, TFLITE_BUILTINS_INT8]\<rparr>"
  obtain t1 where t1: "build_toco_flags pb_example conv_example ?a1 = Inr t1"
    using build_toco_flags_succeeds [of conv_example ?a1 FLOAT FLOAT pb_example]
    by (auto simp add: default_toco_args_sel versions_accepted_Nil)
  obtain t2 where t2: "build_toco_flags pb_example conv_example ?a2 = Inr t2"
    using build_toco_flags_succeeds [of conv_example ?a2 FLOAT FLOAT pb_example]
    by (auto simp add: default_toco_args_sel versions_accepted_Nil)
  have A: "enable_select_tf_ops t1 \<and> force_select_tf_ops t1"
    using build_toco_flags_target_ops [OF t1, of "[SELECT_TF_OPS]"] by simp
  have B: "enable_select_tf_ops t2 \<and> \<not> force_select_tf_ops t2"
    using build_toco_flags_target_ops
            [OF t2, of "[TFLITE_BUILTINS, SELECT_TF_OPS, TFLITE_BUILTINS_INT8]"]
    by simp
  show ?thesis using A B t1 t2 by blast
qed



subsection \<open>The dispatch of \<open>toco_convert_protos\<close>\<close>

lemma new_events_append:
  "trace w' = trace w @ evs \<Longrightarrow> new_events w w' = evs"
  by (simp add: new_events_def)

lemma new_events_same: "new_events w w = []"
  by (simp add: new_events_def)

lemma out_of_process_only_refl: "out_of_process_only w w"
  by (simp add: out_of_process_only_def)

lemma out_of_process_only_trans:
  "out_of_process_only w w' \<Longrightarrow> out_of_process_only w' w'' \<Longrightarrow> out_of_process_only w w''"
  by (auto simp add: out_of_process_only_def)

lemma out_of_process_only_create_temp:
  "create_temp env w = Inr (p, w') \<Longrightarrow> out_of_process_only w w'"
  by (auto simp add: create_temp_def new_empty_file_def out_of_process_only_def
        split: sum.splits)

lemma out_of_process_only_write_file:
  "out_of_process_only w w' \<Longrightarrow> out_of_process_only w (write_file p b w')"
  by (simp add: write_file_def out_of_process_only_def)

lemma out_of_process_only_unlink:
  "out_of_process_only w w' \<Longrightarrow> out_of_process_only w (unlink f w')"
  by (auto simp add: unlink_def out_of_process_only_def split: option.splits)

lemma out_of_process_only_cleanup:
  "out_of_process_only w w' \<Longrightarrow> out_of_process_only w (cleanup names w')"
proof -
  assume o: "out_of_process_only w w'"
  obtain a b c d where n: "names = (a, b, c, d)" by (cases names)
  show ?thesis
    unfolding n cleanup_def prod.case
    by (intro out_of_process_only_unlink o)
qed

lemma out_of_process_only_run_converter:
  "out_of_process_only w
     (snd (snd (run_converter env enable toco_filename input_filename model_filename
                  debug_filename w)))"
proof (cases "create_temp env w")
  case (Inl e)
  then show ?thesis by (simp add: run_converter_def out_of_process_only_refl)
next
  case (Inr r)
  obtain p w1 where r: "r = (p, w1)" by (cases r)
  note c = Inr [unfolded r]
  have s1: "out_of_process_only w w1" by (rule out_of_process_only_create_temp [OF c])
  have s2: "out_of_process_only w1 (w1\<lparr>files := fa, trace := trace w1 @ [Spawn cmd]\<rparr>)"
    for fa cmd
    by (simp add: out_of_process_only_def)
  show ?thesis
    using c s1 out_of_process_only_trans [OF s1 s2]
    by (simp add: run_converter_def Let_def split: sum.splits prod.splits option.splits)
qed

lemma out_of_process_only_try:
  "out_of_process_only w
     (snd (snd (toco_convert_protos_try env model_flags_str toco_flags_str input_data_str
                  debug_info_str enable w)))"
proof (cases "create_temp env w")
  case (Inl e)
  then show ?thesis by (simp add: toco_convert_protos_try_def out_of_process_only_refl)
next
  case (Inr r1)
  obtain fp_toco w1 where c1: "create_temp env w = Inr (fp_toco, w1)"
    using Inr by (cases r1) simp
  have o1: "out_of_process_only w w1" by (rule out_of_process_only_create_temp [OF c1])
  show ?thesis
  proof (cases "create_temp env w1")
    case (Inl e)
    then show ?thesis using c1 o1 by (simp add: toco_convert_protos_try_def)
  next
    case (Inr r2)
    obtain fp_model w2 where c2: "create_temp env w1 = Inr (fp_model, w2)"
      using Inr by (cases r2) simp
    have o2: "out_of_process_only w w2"
      by (rule out_of_process_only_trans [OF o1 out_of_process_only_create_temp [OF c2]])
    show ?thesis
    proof (cases "create_temp env w2")
      case (Inl e)
      then show ?thesis using c1 c2 o2 by (simp add: toco_convert_protos_try_def)
    next
      case (Inr r3)
      obtain fp_input w3 where c3: "create_temp env w2 = Inr (fp_input, w3)"
        using Inr by (cases r3) simp
      have o3: "out_of_process_only w w3"
        by (rule out_of_process_only_trans [OF o2 out_of_process_only_create_temp [OF c3]])
      show ?thesis
      proof (cases "create_temp env w3")
        case (Inl e)
        then show ?thesis using c1 c2 c3 o3 by (simp add: toco_convert_protos_try_def)
      next
        case (Inr r4)
        obtain fp_debug w4 where c4: "create_temp env w3 = Inr (fp_debug, w4)"
          using Inr by (cases r4) simp
        have o4: "out_of_process_only w w4"
          by (rule out_of_process_only_trans [OF o3 out_of_process_only_create_temp [OF c4]])
        show ?thesis
        proof (cases input_data_str)
          case None
          have "out_of_process_only w
                  (write_file fp_toco toco_flags_str (write_file fp_model model_flags_str w4))"
            by (intro out_of_process_only_write_file o4)
          then show ?thesis
            using c1 c2 c3 c4 None
            by (simp add: toco_convert_protos_try_def ensure_binary_def)
        next
          case (Some input_bytes)
          let ?w5 = "write_file fp_toco toco_flags_str
                       (write_file fp_model model_flags_str
                          (write_file fp_input input_bytes
                             (write_file fp_debug (debug_info_bytes debug_info_str) w4)))"
          have o5: "out_of_process_only w ?w5"
            by (intro out_of_process_only_write_file o4)
          have "out_of_process_only w
                  (snd (snd (run_converter env enable fp_toco fp_input fp_model fp_debug ?w5)))"
            by (rule out_of_process_only_trans [OF o5 out_of_process_only_run_converter])
          then show ?thesis
            using c1 c2 c3 c4 Some
            by (simp add: toco_convert_protos_try_def ensure_binary_def Let_def)
        qed
      qed
    qed
  qed
qed

text \<open>What the branch through the binary does: the \<open>try\<close> block, then the \<open>finally\<close> block.\<close>

lemma toco_convert_protos_out_of_process:
  assumes "\<not> enable" and "toco_from_proto_bin env \<noteq> []"
    and "find_executable w (toco_from_proto_bin env) \<noteq> None"
  shows "toco_convert_protos env model_flags_str toco_flags_str input_data_str debug_info_str
           enable w =
         (case toco_convert_protos_try env model_flags_str toco_flags_str input_data_str
                 debug_info_str enable w of
            (result, names, w') \<Rightarrow> (result, cleanup names w'))"
  using assms by (auto simp add: toco_convert_protos_def)

lemma toco_convert_protos_in_process_branch:
  assumes "enable \<or> toco_from_proto_bin env = []"
  shows "toco_convert_protos env model_flags_str toco_flags_str input_data_str debug_info_str
           enable w =
         (case wrapped_toco_convert env model_flags_str toco_flags_str input_data_str
                 debug_info_str enable of
            Inr model_str \<Rightarrow> Inr model_str
          | Inl e \<Rightarrow> Inl (ConverterError (str_exn e)),
          w\<lparr>trace := trace w @ [InProcessConvert]\<rparr>)"
  using assms by (auto simp add: toco_convert_protos_def Let_def split: sum.splits)

lemma toco_convert_protos_out_of_process_events:
  assumes "\<not> (enable \<or> toco_from_proto_bin env = [])"
  shows "out_of_process_only w
           (snd (toco_convert_protos env model_flags_str toco_flags_str input_data_str
                   debug_info_str enable w))"
proof (cases "find_executable w (toco_from_proto_bin env) = None")
  case True
  then show ?thesis
    using assms by (simp add: toco_convert_protos_def out_of_process_only_refl)
next
  case False
  obtain result names w' where t:
    "toco_convert_protos_try env model_flags_str toco_flags_str input_data_str
       debug_info_str enable w = (result, names, w')"
    by (cases "toco_convert_protos_try env model_flags_str toco_flags_str input_data_str
                 debug_info_str enable w")
  have "out_of_process_only w w'"
    using out_of_process_only_try
            [of w env model_flags_str toco_flags_str input_data_str debug_info_str enable]
    by (simp add: t)
  then have "out_of_process_only w (cleanup names w')"
    by (rule out_of_process_only_cleanup)
  then have c: "out_of_process_only w (snd (result, cleanup names w'))" by simp
  from assms have ne: "\<not> enable" "toco_from_proto_bin env \<noteq> []" by auto
  have eq: "toco_convert_protos env model_flags_str toco_flags_str input_data_str
              debug_info_str enable w = (result, cleanup names w')"
    using toco_convert_protos_out_of_process
            [OF ne False, of model_flags_str toco_flags_str input_data_str debug_info_str]
    by (simp only: t prod.case)
  show ?thesis by (subst eq) (rule c)
qed

lemma out_of_process_only_new_events:
  "out_of_process_only w w' \<Longrightarrow> InProcessConvert \<notin> set (new_events w w')"
  by (auto simp add: out_of_process_only_def new_events_def)

text \<open>
  C4: \<open>toco_convert_protos\<close> calls the in-process converter exactly when
  \<open>enable_mlir_converter\<close> is set or no binary is configured. On that path the bytes the
  converter returns are returned as they are, and an exception it raises comes back as
  a \<open>ConverterError\<close> whose message is the text of that exception.
\<close>

theorem toco_convert_protos_in_process:
  "(InProcessConvert \<in> set (new_events w
        (snd (toco_convert_protos env model_flags_str toco_flags_str input_data_str
                debug_info_str enable w)))
      \<longleftrightarrow> enable \<or> toco_from_proto_bin env = []) \<and>
   (enable \<or> toco_from_proto_bin env = [] \<longrightarrow>
      (\<forall>model_str.
          wrapped_toco_convert env model_flags_str toco_flags_str input_data_str
            debug_info_str enable = Inr model_str \<longrightarrow>
          fst (toco_convert_protos env model_flags_str toco_flags_str input_data_str
                 debug_info_str enable w) = Inr model_str) \<and>
      (\<forall>e.
          wrapped_toco_convert env model_flags_str toco_flags_str input_data_str
            debug_info_str enable = Inl e \<longrightarrow>
          fst (toco_convert_protos env model_flags_str toco_flags_str input_data_str
                 debug_info_str enable w) = Inl (ConverterError (str_exn e))))"
proof (cases "enable \<or> toco_from_proto_bin env = []")
  case True
  note b = toco_convert_protos_in_process_branch
             [OF True, of model_flags_str toco_flags_str input_data_str debug_info_str w]
  have "new_events w
          (snd (toco_convert_protos env model_flags_str toco_flags_str input_data_str
                  debug_info_str enable w)) = [InProcessConvert]"
    by (simp add: b new_events_def)
  then show ?thesis using True by (simp add: b)
next
  case False
  note o = out_of_process_only_new_events
             [OF toco_convert_protos_out_of_process_events
                   [OF False, of w model_flags_str toco_flags_str input_data_str
                      debug_info_str]]
  show ?thesis using False o by simp
qed

text \<open>
  C4 run with a binary configured: with \<open>enable_mlir_converter\<close> the converter is called
  in process and its bytes come back; an exception of the converter comes back as a
  \<open>ConverterError\<close> with the same text.
\<close>

theorem toco_convert_protos_in_process_witness:
  "fst (toco_convert_protos env_example ''model-flags'' ''toco-flags'' (Some ''graph'') None
          True world_example) = Inr ''TFL3'' \<and>
   InProcessConvert \<in> set (new_events world_example
       (snd (toco_convert_protos env_example ''model-flags'' ''toco-flags'' (Some ''graph'')
               None True world_example))) \<and>
   InProcessConvert \<notin> set (new_events world_example
       (snd (toco_convert_protos env_example ''model-flags'' ''toco-flags'' (Some ''graph'')
               None False world_example))) \<and>
   fst (toco_convert_protos
          (env_example\<lparr>wrapped_toco_convert :=
             (\<lambda>m t i d e. Inl (RuntimeError ''Unsupported op''))\<rparr>)
          ''model-flags'' ''toco-flags'' (Some ''graph'') None True world_example)
     = Inl (ConverterError ''Unsupported op'')"
proof -
  let ?raising = "env_example\<lparr>wrapped_toco_convert :=
                    (\<lambda>m t i d e. Inl (RuntimeError ''Unsupported op''))\<rparr>"
  have bin: "toco_from_proto_bin env_example \<noteq> []" by (simp add: env_example_def)
  have ok: "wrapped_toco_convert env_example ''model-flags'' ''toco-flags'' (Some ''graph'')
              None True = Inr ''TFL3''"
    by (simp add: env_example_def)
  have bad: "wrapped_toco_convert ?raising ''model-flags'' ''toco-flags'' (Some ''graph'')
              None True = Inl (RuntimeError ''Unsupported op'')"
    by simp
  note t1 = toco_convert_protos_in_process
              [of world_example env_example "''model-flags''" "''toco-flags''"
                  "Some ''graph''" None True]
  note t2 = toco_convert_protos_in_process
              [of world_example env_example "''model-flags''" "''toco-flags''"
                  "Some ''graph''" None False]
  note t3 = toco_convert_protos_in_process
              [of world_example ?raising "''model-flags''" "''toco-flags''"
                  "Some ''graph''" None True]
  have A: "fst (toco_convert_protos env_example ''model-flags'' ''toco-flags''
                  (Some ''graph'') None True world_example) = Inr ''TFL3''"
    using conjunct2 [OF t1] ok by blast
  have B: "InProcessConvert \<in> set (new_events world_example
             (snd (toco_convert_protos env_example ''model-flags'' ''toco-flags''
                     (Some ''graph'') None True world_example)))"
    using conjunct1 [OF t1] by blast
  have C: "InProcessConvert \<notin> set (new_events world_example
             (snd (toco_convert_protos env_example ''model-flags'' ''toco-flags''
                     (Some ''graph'') None False world_example)))"
    using conjunct1 [OF t2] bin by blast
  have D: "fst (toco_convert_protos ?raising ''model-flags'' ''toco-flags''
                  (Some ''graph'') None True world_example)
             = Inl (ConverterError (str_exn (RuntimeError ''Unsupported op'')))"
    using conjunct2 [OF t3] bad by blast
  have D': "fst (toco_convert_protos ?raising ''model-flags'' ''toco-flags''
                  (Some ''graph'') None True world_example)
             = Inl (ConverterError ''Unsupported op'')"
    using D by (simp only: str_exn.simps)
  show ?thesis using A B C D' by (intro conjI)
qed

lemma not_found_message_guidance: "sublist ''is in your path'' not_found_message"
proof -
  have eq: "not_found_message =
          (''Could not find toco_from_protos binary, make sure'' @ newline @
           ''your virtualenv bin directory or pip local bin directory '') @
          ''is in your path'' @
          (''.'' @ newline @
           ''In particular, if you have installed TensorFlow with --user, make sure you''
             @ newline @
           ''add the install directory to your path.'' @ newline @
           newline @
           ''For example:'' @ newline @
           ''Linux: export PATH=$PATH:~/.local/bin/'' @ newline @
           ''Mac: export PATH=$PATH:~/Library/Python/<version#>/bin'' @ newline @
           newline @
           ''Alternative, use virtualenv.'')"
    by (simp add: not_found_message_def)
  show ?thesis by (subst eq) (rule sublist_appendI)
qed

text \<open>
  C5: when the path through the binary is taken and the configured binary is not on
  the search path at the moment of the call, \<open>toco_convert_protos\<close> raises a
  \<open>ConverterError\<close> that tells to put the tool on the path, and the world is as it was:
  no temporary file, no process. Importing the module never raises for a binary that is
  missing then: it falls back to the name \<open>toco_from_protos\<close>, to be looked up at the
  call.
\<close>

theorem toco_convert_protos_binary_not_found:
  assumes "\<not> enable" and "toco_from_proto_bin env \<noteq> []"
    and "find_executable w (toco_from_proto_bin env) = None"
  shows "toco_convert_protos env model_flags_str toco_flags_str input_data_str debug_info_str
           enable w = (Inl (ConverterError not_found_message), w) \<and>
         sublist ''is in your path'' not_found_message \<and>
         (\<forall>datafile path_exists.
            datafile \<noteq> [] \<and> \<not> path_exists datafile \<longrightarrow>
            module_toco_from_proto_bin False datafile path_exists = ''toco_from_protos'')"
  using assms not_found_message_guidance
  by (simp add: toco_convert_protos_def module_toco_from_proto_bin_def)

text \<open>
  C5 run on a world whose search path does not hold the binary: the error, and neither
  a file nor an event more than before.
\<close>

theorem toco_convert_protos_binary_not_found_witness:
  "toco_convert_protos env_example ''model-flags'' ''toco-flags'' (Some ''graph'') None False
     (world_example\<lparr>find_executable := (\<lambda>n. None)\<rparr>)
   = (Inl (ConverterError not_found_message),
      world_example\<lparr>find_executable := (\<lambda>n. None)\<rparr>) \<and>
   module_toco_from_proto_bin False ''/opt/tf/lite/toco/python/toco_from_protos'' (\<lambda>p. False)
     = ''toco_from_protos''"
proof -
  have bin: "toco_from_proto_bin env_example \<noteq> []" by (simp add: env_example_def)
  have nf: "find_executable (world_example\<lparr>find_executable := (\<lambda>n. None)\<rparr>)
              (toco_from_proto_bin env_example) = None"
    by simp
  have d: "''/opt/tf/lite/toco/python/toco_from_protos'' \<noteq> []
             \<and> \<not> (\<lambda>p. False) ''/opt/tf/lite/toco/python/toco_from_protos''"
    by simp
  have ne: "\<not> False" by simp
  note th = toco_convert_protos_binary_not_found
              [OF ne bin nf, of "''model-flags''" "''toco-flags''" "Some ''graph''" None]
  have A: "toco_convert_protos env_example ''model-flags'' ''toco-flags'' (Some ''graph'')
             None False (world_example\<lparr>find_executable := (\<lambda>n. None)\<rparr>)
           = (Inl (ConverterError not_found_message),
              world_example\<lparr>find_executable := (\<lambda>n. None)\<rparr>)"
    by (rule conjunct1 [OF th])
  have C: "module_toco_from_proto_bin False ''/opt/tf/lite/toco/python/toco_from_protos''
             (\<lambda>p. False) = ''toco_from_protos''"
    by (rule conjunct2 [OF conjunct2 [OF th], rule_format]) (rule d)
  show ?thesis using A C by (rule conjI)
qed

subsection \<open>The run through the binary\<close>

text \<open>
  A call that takes the path through the binary, creates its five temporary files and
  runs the process to its end: the result and the world it leaves.
\<close>

lemma toco_convert_protos_run:
  assumes "\<not> enable" and "toco_from_proto_bin env \<noteq> []"
    and "find_executable w (toco_from_proto_bin env) \<noteq> None"
    and "create_temp env w = Inr (fp_toco, w1)"
    and "create_temp env w1 = Inr (fp_model, w2)"
    and "create_temp env w2 = Inr (fp_input, w3)"
    and "create_temp env w3 = Inr (fp_debug, w4)"
    and "input_data_str = Some input_bytes"
    and "w5 = write_file fp_toco toco_flags_str
                (write_file fp_model model_flags_str
                   (write_file fp_input input_bytes
                      (write_file fp_debug (debug_info_bytes debug_info_str) w4)))"
    and "create_temp env w5 = Inr (output_filename, w6)"
    and "cmdline = command_line (toco_from_proto_bin env) fp_model fp_toco fp_input
                     output_filename fp_debug enable"
    and "Popen_communicate env cmdline w6 = Inr (exitcode, stdout, files_after)"
  shows "toco_convert_protos env model_flags_str toco_flags_str input_data_str debug_info_str
           enable w =
         ((if exitcode = 0
           then (case files_after output_filename of
                   Some contents \<Rightarrow> Inr contents
                 | None \<Rightarrow> Inl (no_such_file output_filename))
           else Inl (ConverterError (failure_message env stdout))),
          cleanup (Some fp_toco, Some fp_input, Some fp_model, Some output_filename)
            (w6\<lparr>files := files_after, trace := trace w6 @ [Spawn cmdline]\<rparr>))"
proof -
  have t: "toco_convert_protos_try env model_flags_str toco_flags_str input_data_str
             debug_info_str enable w =
           run_converter env enable fp_toco fp_input fp_model fp_debug w5"
    by (simp add: toco_convert_protos_try_def ensure_binary_def Let_def
          assms(4) assms(5) assms(6) assms(7) assms(8) assms(9))
  have r: "run_converter env enable fp_toco fp_input fp_model fp_debug w5 =
           ((if exitcode = 0
             then (case files_after output_filename of
                     Some contents \<Rightarrow> Inr contents
                   | None \<Rightarrow> Inl (no_such_file output_filename))
             else Inl (ConverterError (failure_message env stdout))),
            (Some fp_toco, Some fp_input, Some fp_model, Some output_filename),
            w6\<lparr>files := files_after, trace := trace w6 @ [Spawn cmdline]\<rparr>)"
    by (simp add: run_converter_def Let_def assms(10) assms(11) [symmetric] assms(12)
          split: option.splits)
  show ?thesis
    by (simp add: toco_convert_protos_out_of_process [OF assms(1) assms(2) assms(3)] t r)
qed

lemma failure_message_contains:
  "(\<forall>t. ensure_text env stdout = Some t \<longrightarrow> sublist t (failure_message env stdout)) \<and>
   (ensure_text env stdout = None \<longrightarrow>
      sublist (format_bytes env stdout) (failure_message env stdout))"
proof (cases "ensure_text env stdout")
  case None
  have eq: "failure_message env stdout =
              (''See console for info.'' @ newline) @ format_bytes env stdout
                @ (newline @ newline)"
    by (simp add: failure_message_def try_convert_to_unicode_def None)
  have "sublist (format_bytes env stdout) (failure_message env stdout)"
    by (subst eq) (rule sublist_appendI)
  then show ?thesis using None by simp
next
  case (Some t)
  have eq: "failure_message env stdout =
              (''See console for info.'' @ newline) @ t @ (newline @ newline)"
    by (simp add: failure_message_def try_convert_to_unicode_def Some)
  have "sublist t (failure_message env stdout)"
    by (subst eq) (rule sublist_appendI)
  then show ?thesis using Some by simp
qed

text \<open>
  C3: on the path through the binary, once the process has run: with exit code 0 the
  call returns exactly the bytes the reserved output file holds when the process has
  ended; with any other exit code it raises a \<open>ConverterError\<close> whose message contains
  the captured output of the process (as text when it decodes, as \<open>%s\<close> prints the
  bytes otherwise).
\<close>

theorem toco_convert_protos_exit_code:
  assumes "\<not> enable" and "toco_from_proto_bin env \<noteq> []"
    and "find_executable w (toco_from_proto_bin env) \<noteq> None"
    and "create_temp env w = Inr (fp_toco, w1)"
    and "create_temp env w1 = Inr (fp_model, w2)"
    and "create_temp env w2 = Inr (fp_input, w3)"
    and "create_temp env w3 = Inr (fp_debug, w4)"
    and "input_data_str = Some input_bytes"
    and "w5 = write_file fp_toco toco_flags_str
                (write_file fp_model model_flags_str
                   (write_file fp_input input_bytes
                      (write_file fp_debug (debug_info_bytes debug_info_str) w4)))"
    and "create_temp env w5 = Inr (output_filename, w6)"
    and "cmdline = command_line (toco_from_proto_bin env) fp_model fp_toco fp_input
                     output_filename fp_debug enable"
    and "Popen_communicate env cmdline w6 = Inr (exitcode, stdout, files_after)"
  shows "(exitcode = 0 \<longrightarrow>
            (\<forall>contents. files_after output_filename = Some contents \<longrightarrow>
               fst (toco_convert_protos env model_flags_str toco_flags_str input_data_str
                      debug_info_str enable w) = Inr contents)) \<and>
         (exitcode \<noteq> 0 \<longrightarrow>
            fst (toco_convert_protos env model_flags_str toco_flags_str input_data_str
                   debug_info_str enable w)
              = Inl (ConverterError (failure_message env stdout)) \<and>
            (\<forall>t. ensure_text env stdout = Some t \<longrightarrow> sublist t (failure_message env stdout)) \<and>
            (ensure_text env stdout = None \<longrightarrow>
               sublist (format_bytes env stdout) (failure_message env stdout)))"
  using failure_message_contains [of env stdout]
  by (simp add: toco_convert_protos_run [OF assms])

text \<open>The example world after each temporary file.\<close>

lemma create_temp_fresh:
  assumes "NamedTemporaryFile env = fresh_tmp"
    and "find (\<lambda>p. files w p = None) tmp_names = Some p"
  shows "create_temp env w = Inr (p, new_empty_file p w)"
  using assms by (simp add: create_temp_def fresh_tmp_def)

lemma files_new_empty_file: "files (new_empty_file p w) = (files w)(p \<mapsto> [])"
  by (simp add: new_empty_file_def)

lemma files_write_file: "files (write_file p b w) = (files w)(p \<mapsto> b)"
  by (simp add: write_file_def)

lemma find_executable_new_empty_file:
  "find_executable (new_empty_file p w) = find_executable w"
  by (simp add: new_empty_file_def)

lemma find_executable_write_file: "find_executable (write_file p b w) = find_executable w"
  by (simp add: write_file_def)

lemma files_unlink: "files (unlink (Some p) w) = (files w)(p := None)"
  by (auto simp add: unlink_def)

lemma files_cleanup:
  "files (cleanup (Some a, Some b, Some c, Some d) w)
     = (files w)(a := None, b := None, c := None, d := None)"
  by (simp add: cleanup_def files_unlink)

lemma example_run:
  assumes tmp: "NamedTemporaryFile env = fresh_tmp"
    and bin: "toco_from_proto_bin env = ''toco_from_protos''"
    and run: "\<And>cmdline w. Popen_communicate env cmdline w = Inr (exitcode, stdout, after w)"
  shows "example_dispatch env =
         ((if exitcode = 0
           then (case after
                        (new_empty_file ''/tmp/tmp4''
                          (write_file ''/tmp/tmp0'' ''toco-flags''
                            (write_file ''/tmp/tmp1'' ''model-flags''
                              (write_file ''/tmp/tmp2'' ''graph''
                                (write_file ''/tmp/tmp3'' []
                                  (new_empty_file ''/tmp/tmp3''
                                    (new_empty_file ''/tmp/tmp2''
                                      (new_empty_file ''/tmp/tmp1''
                                        (new_empty_file ''/tmp/tmp0'' world_example)))))))))
                        ''/tmp/tmp4'' of
                   Some contents \<Rightarrow> Inr contents
                 | None \<Rightarrow> Inl (no_such_file ''/tmp/tmp4''))
           else Inl (ConverterError (failure_message env stdout))),
          cleanup (Some ''/tmp/tmp0'', Some ''/tmp/tmp2'', Some ''/tmp/tmp1'', Some ''/tmp/tmp4'')
            ((new_empty_file ''/tmp/tmp4''
               (write_file ''/tmp/tmp0'' ''toco-flags''
                 (write_file ''/tmp/tmp1'' ''model-flags''
                   (write_file ''/tmp/tmp2'' ''graph''
                     (write_file ''/tmp/tmp3'' []
                       (new_empty_file ''/tmp/tmp3''
                         (new_empty_file ''/tmp/tmp2''
                           (new_empty_file ''/tmp/tmp1''
                             (new_empty_file ''/tmp/tmp0'' world_example)))))))))
             \<lparr>files :=
                 after
                   (new_empty_file ''/tmp/tmp4''
                     (write_file ''/tmp/tmp0'' ''toco-flags''
                       (write_file ''/tmp/tmp1'' ''model-flags''
                         (write_file ''/tmp/tmp2'' ''graph''
                           (write_file ''/tmp/tmp3'' []
                             (new_empty_file ''/tmp/tmp3''
                               (new_empty_file ''/tmp/tmp2''
                                 (new_empty_file ''/tmp/tmp1''
                                   (new_empty_file ''/tmp/tmp0'' world_example))))))))),
               trace :=
                 trace
                   (new_empty_file ''/tmp/tmp4''
                     (write_file ''/tmp/tmp0'' ''toco-flags''
                       (write_file ''/tmp/tmp1'' ''model-flags''
                         (write_file ''/tmp/tmp2'' ''graph''
                           (write_file ''/tmp/tmp3'' []
                             (new_empty_file ''/tmp/tmp3''
                               (new_empty_file ''/tmp/tmp2''
                                 (new_empty_file ''/tmp/tmp1''
                                   (new_empty_file ''/tmp/tmp0'' world_example)))))))))
                   @ [Spawn (command_line ''toco_from_protos'' ''/tmp/tmp1'' ''/tmp/tmp0''
                               ''/tmp/tmp2'' ''/tmp/tmp4'' ''/tmp/tmp3'' False)]\<rparr>))"
proof -
  let ?w1 = "new_empty_file ''/tmp/tmp0'' world_example"
  let ?w2 = "new_empty_file ''/tmp/tmp1'' ?w1"
  let ?w3 = "new_empty_file ''/tmp/tmp2'' ?w2"
  let ?w4 = "new_empty_file ''/tmp/tmp3'' ?w3"
  let ?w5 = "write_file ''/tmp/tmp0'' ''toco-flags''
               (write_file ''/tmp/tmp1'' ''model-flags''
                  (write_file ''/tmp/tmp2'' ''graph''
                     (write_file ''/tmp/tmp3'' (debug_info_bytes None) ?w4)))"
  let ?w6 = "new_empty_file ''/tmp/tmp4'' ?w5"
  let ?cmd = "command_line (toco_from_proto_bin env) ''/tmp/tmp1'' ''/tmp/tmp0''
                ''/tmp/tmp2'' ''/tmp/tmp4'' ''/tmp/tmp3'' False"
  have ne: "\<not> False" by simp
  have b: "toco_from_proto_bin env \<noteq> []" by (simp add: bin)
  have fe: "find_executable world_example (toco_from_proto_bin env) \<noteq> None"
    by (simp add: bin world_example_def)
  have c1: "create_temp env world_example = Inr (''/tmp/tmp0'', ?w1)"
    by (rule create_temp_fresh [OF tmp]) (simp add: tmp_names_def world_example_def)
  have c2: "create_temp env ?w1 = Inr (''/tmp/tmp1'', ?w2)"
    by (rule create_temp_fresh [OF tmp])
       (simp add: tmp_names_def world_example_def files_new_empty_file)
  have c3: "create_temp env ?w2 = Inr (''/tmp/tmp2'', ?w3)"
    by (rule create_temp_fresh [OF tmp])
       (simp add: tmp_names_def world_example_def files_new_empty_file)
  have c4: "create_temp env ?w3 = Inr (''/tmp/tmp3'', ?w4)"
    by (rule create_temp_fresh [OF tmp])
       (simp add: tmp_names_def world_example_def files_new_empty_file)
  have c5: "create_temp env ?w5 = Inr (''/tmp/tmp4'', ?w6)"
    by (rule create_temp_fresh [OF tmp])
       (simp add: tmp_names_def world_example_def files_new_empty_file files_write_file)
  note th = toco_convert_protos_run
              [OF ne b fe c1 c2 c3 c4 refl refl c5 refl run]
  show ?thesis
    unfolding example_dispatch_def
    by (subst th) (simp add: debug_info_bytes_def bin)
qed

text \<open>
  C3 run on the example world: the process that exits with code 0 and writes a model
  to the reserved output file, and the process that exits with code 1 after printing a
  diagnostic.
\<close>

theorem toco_convert_protos_exit_code_witness:
  "fst (toco_convert_protos env_example ''model-flags'' ''toco-flags'' (Some ''graph'') None
          False world_example) = Inr ''TFL3'' \<and>
   fst (toco_convert_protos env_failing ''model-flags'' ''toco-flags'' (Some ''graph'') None
          False world_example)
     = Inl (ConverterError (failure_message env_failing ''unsupported op'')) \<and>
   sublist ''unsupported op'' (failure_message env_failing ''unsupported op'')"
proof -
  let ?w1 = "new_empty_file ''/tmp/tmp0'' world_example"
  let ?w2 = "new_empty_file ''/tmp/tmp1'' ?w1"
  let ?w3 = "new_empty_file ''/tmp/tmp2'' ?w2"
  let ?w4 = "new_empty_file ''/tmp/tmp3'' ?w3"
  let ?w5 = "write_file ''/tmp/tmp0'' ''toco-flags''
               (write_file ''/tmp/tmp1'' ''model-flags''
                  (write_file ''/tmp/tmp2'' ''graph''
                     (write_file ''/tmp/tmp3'' (debug_info_bytes None) ?w4)))"
  let ?w6 = "new_empty_file ''/tmp/tmp4'' ?w5"
  have ne: "\<not> False" by simp
  have tmp: "NamedTemporaryFile env_example = fresh_tmp"
    and tmp': "NamedTemporaryFile env_failing = fresh_tmp"
    by (simp_all add: env_example_def env_failing_def)
  have b: "toco_from_proto_bin env_example \<noteq> []"
    and b': "toco_from_proto_bin env_failing \<noteq> []"
    by (simp_all add: env_example_def env_failing_def)
  have fe: "find_executable world_example (toco_from_proto_bin env_example) \<noteq> None"
    and fe': "find_executable world_example (toco_from_proto_bin env_failing) \<noteq> None"
    by (simp_all add: env_example_def env_failing_def world_example_def)
  have f1: "find (\<lambda>p. files world_example p = None) tmp_names = Some ''/tmp/tmp0''"
    by (simp add: tmp_names_def world_example_def)
  have f2: "find (\<lambda>p. files ?w1 p = None) tmp_names = Some ''/tmp/tmp1''"
    by (simp add: tmp_names_def world_example_def files_new_empty_file)
  have f3: "find (\<lambda>p. files ?w2 p = None) tmp_names = Some ''/tmp/tmp2''"
    by (simp add: tmp_names_def world_example_def files_new_empty_file)
  have f4: "find (\<lambda>p. files ?w3 p = None) tmp_names = Some ''/tmp/tmp3''"
    by (simp add: tmp_names_def world_example_def files_new_empty_file)
  have f5: "find (\<lambda>p. files ?w5 p = None) tmp_names = Some ''/tmp/tmp4''"
    by (simp add: tmp_names_def world_example_def files_new_empty_file files_write_file)
  have run: "Popen_communicate env_example
               (command_line (toco_from_proto_bin env_example) ''/tmp/tmp1'' ''/tmp/tmp0''
                  ''/tmp/tmp2'' ''/tmp/tmp4'' ''/tmp/tmp3'' False) ?w6
             = Inr (0, [], (files ?w6)(''/tmp/tmp4'' \<mapsto> ''TFL3''))"
    by (simp add: env_example_def)
  have run': "Popen_communicate env_failing
               (command_line (toco_from_proto_bin env_failing) ''/tmp/tmp1'' ''/tmp/tmp0''
                  ''/tmp/tmp2'' ''/tmp/tmp4'' ''/tmp/tmp3'' False) ?w6
             = Inr (1, ''unsupported op'', files ?w6)"
    by (simp add: env_example_def env_failing_def)
  note ok = toco_convert_protos_exit_code
              [OF ne b fe create_temp_fresh [OF tmp f1] create_temp_fresh [OF tmp f2]
                  create_temp_fresh [OF tmp f3] create_temp_fresh [OF tmp f4] refl refl
                  create_temp_fresh [OF tmp f5] refl run]
  note bad = toco_convert_protos_exit_code
              [OF ne b' fe' create_temp_fresh [OF tmp' f1] create_temp_fresh [OF tmp' f2]
                  create_temp_fresh [OF tmp' f3] create_temp_fresh [OF tmp' f4] refl refl
                  create_temp_fresh [OF tmp' f5] refl run']
  have A: "fst (toco_convert_protos env_example ''model-flags'' ''toco-flags''
                  (Some ''graph'') None False world_example) = Inr ''TFL3''"
    using conjunct1 [OF ok] by simp
  have dec: "ensure_text env_failing ''unsupported op'' = Some ''unsupported op''"
    by (simp add: env_example_def env_failing_def)
  have one: "(1::int) \<noteq> 0" by simp
  have B: "fst (toco_convert_protos env_failing ''model-flags'' ''toco-flags''
                  (Some ''graph'') None False world_example)
             = Inl (ConverterError (failure_message env_failing ''unsupported op''))"
    using conjunct2 [OF bad] one by blast
  have C: "sublist ''unsupported op'' (failure_message env_failing ''unsupported op'')"
    using conjunct2 [OF bad] one dec by blast
  show ?thesis using A B C by (intro conjI)
qed

text \<open>
  C1, at a call that succeeds: the model comes back and the four files named in the
  \<open>finally\<close> block are gone, but the debug-info file is still there. The same after a
  process that exits with code 1. The claim promises that the debug-info file is deleted
  too.
\<close>

theorem toco_convert_protos_leaves_debug_file:
  "fst (example_dispatch env_example) = Inr ''TFL3'' \<and>
   files (snd (example_dispatch env_example)) ''/tmp/tmp0'' = None \<and>
   files (snd (example_dispatch env_example)) ''/tmp/tmp1'' = None \<and>
   files (snd (example_dispatch env_example)) ''/tmp/tmp2'' = None \<and>
   files (snd (example_dispatch env_example)) ''/tmp/tmp4'' = None \<and>
   files (snd (example_dispatch env_example)) ''/tmp/tmp3'' = Some [] \<and>
   fst (example_dispatch env_failing)
     = Inl (ConverterError (failure_message env_failing ''unsupported op'')) \<and>
   files (snd (example_dispatch env_failing)) ''/tmp/tmp3'' = Some []"
proof -
  have tmp: "NamedTemporaryFile env_example = fresh_tmp"
    and tmp': "NamedTemporaryFile env_failing = fresh_tmp"
    by (simp_all add: env_example_def env_failing_def)
  have bin: "toco_from_proto_bin env_example = ''toco_from_protos''"
    and bin': "toco_from_proto_bin env_failing = ''toco_from_protos''"
    by (simp_all add: env_example_def env_failing_def)
  have run: "Popen_communicate env_example cmdline w
               = Inr (0, [], (\<lambda>w. (files w)(''/tmp/tmp4'' \<mapsto> ''TFL3'')) w)" for cmdline w
    by (simp add: env_example_def)
  have run': "Popen_communicate env_failing cmdline w
               = Inr (1, ''unsupported op'', files w)" for cmdline w
    by (simp add: env_example_def env_failing_def)
  note ok = example_run [OF tmp bin run]
  note bad = example_run [OF tmp' bin' run']
  note fs = files_cleanup files_new_empty_file files_write_file
  have empty: "files world_example = Map.empty" by (simp add: world_example_def)
  have r: "fst (example_dispatch env_example) = Inr ''TFL3''"
    by (simp add: ok)
  have r': "fst (example_dispatch env_failing)
              = Inl (ConverterError (failure_message env_failing ''unsupported op''))"
    by (simp add: bad)
  have f: "files (snd (example_dispatch env_example))
             = [''/tmp/tmp3'' \<mapsto> []]"
    by (rule ext) (simp add: ok fs empty)
  have f': "files (snd (example_dispatch env_failing))
             = [''/tmp/tmp3'' \<mapsto> []]"
    by (rule ext) (simp add: bad fs empty)
  show ?thesis by (simp add: r r' f f')
qed

subsection \<open>\<open>convert_saved_model\<close>\<close>

text \<open>
  C9: \<open>convert_saved_model\<close> always dispatches with \<open>enable_mlir_converter\<close> set.
  Whatever binary is configured and whatever the call returns, it adds no event but the
  in-process call to the trace (no temporary file, no process) and leaves the files as
  they were; when its two messages are built, its result is that of
  \<open>toco_convert_protos\<close> called with \<open>enable_mlir_converter = True\<close>, which calls the
  in-process converter.
\<close>

theorem convert_saved_model_in_process:
  "files (snd (convert_saved_model m env dir version tags exported_names kw w)) = files w \<and>
   list_all (\<lambda>e. e = InProcessConvert)
     (new_events w (snd (convert_saved_model m env dir version tags exported_names kw w))) \<and>
   (\<forall>model_flags toco_flags.
      set_saved_model_fields (proto m) dir version tags exported_names ModelFlags_init
        = Inr model_flags \<and>
      build_toco_flags_kw (proto m) (convert_dtype_to_tflite_type m) kw = Inr toco_flags
      \<longrightarrow>
      convert_saved_model m env dir version tags exported_names kw w
        = toco_convert_protos env (serialize_model_flags m model_flags)
            (serialize_toco_flags m toco_flags) None None True w \<and>
      new_events w (snd (convert_saved_model m env dir version tags exported_names kw w))
        = [InProcessConvert])"
proof (cases "set_saved_model_fields (proto m) dir version tags exported_names ModelFlags_init")
  case (Inl e)
  then show ?thesis by (simp add: convert_saved_model_def new_events_def)
next
  case (Inr model_flags)
  note mf = Inr
  show ?thesis
  proof (cases "build_toco_flags_kw (proto m) (convert_dtype_to_tflite_type m) kw")
    case (Inl e)
    then show ?thesis using mf by (simp add: convert_saved_model_def new_events_def)
  next
    case (Inr toco_flags)
    have t: "True \<or> toco_from_proto_bin env = []" by simp
    note d = toco_convert_protos_in_process_branch
               [OF t, of "serialize_model_flags m model_flags"
                  "serialize_toco_flags m toco_flags" None None w]
    have c: "convert_saved_model m env dir version tags exported_names kw w
               = toco_convert_protos env (serialize_model_flags m model_flags)
                   (serialize_toco_flags m toco_flags) None None True w"
      using mf Inr by (simp add: convert_saved_model_def)
    show ?thesis
      using mf Inr by (simp add: c d new_events_def)
  qed
qed

text \<open>
  C9 run with a binary configured and on the search path: the model comes back from
  the in-process converter, and the trace holds that call alone.
\<close>

theorem convert_saved_model_in_process_witness:
  "files (snd (convert_saved_model modules_example env_example (Some ''/models/m'') 1
                 (Some [''serve'']) None no_kwargs world_example)) = files world_example \<and>
   list_all (\<lambda>e. e = InProcessConvert)
     (new_events world_example
        (snd (convert_saved_model modules_example env_example (Some ''/models/m'') 1
                (Some [''serve'']) None no_kwargs world_example))) \<and>
   new_events world_example
     (snd (convert_saved_model modules_example env_example (Some ''/models/m'') 1
             (Some [''serve'']) None no_kwargs world_example)) = [InProcessConvert]"
proof -
  note th = convert_saved_model_in_process
              [of modules_example env_example "Some ''/models/m''" 1 "Some [''serve'']" None
                  no_kwargs world_example]
  obtain model_flags where mf:
    "set_saved_model_fields (proto modules_example) (Some ''/models/m'') 1 (Some [''serve''])
       None ModelFlags_init = Inr model_flags"
    by (simp add: set_saved_model_fields_def modules_example_def pb_example_def
          int32_example_def Let_def)
  have a: "conv_example (kw_inference_type (bind_toco_args no_kwargs)) = Inr FLOAT"
    by (simp add: bind_toco_args_def no_kwargs_def)
  have b: "(case kw_inference_input_type (bind_toco_args no_kwargs) of
              Some t \<Rightarrow> conv_example t | None \<Rightarrow> Inr FLOAT) = Inr FLOAT"
    by (simp add: bind_toco_args_def no_kwargs_def)
  have v: "versions_accepted pb_example (kw_operators_versions (bind_toco_args no_kwargs))"
    by (simp add: bind_toco_args_def no_kwargs_def versions_accepted_def)
  obtain toco_flags where tf:
    "build_toco_flags_kw (proto modules_example)
       (convert_dtype_to_tflite_type modules_example) no_kwargs = Inr toco_flags"
    using build_toco_flags_succeeds [OF a b v]
    by (auto simp add: build_toco_flags_kw_def modules_example_def)
  from th have A: "files (snd (convert_saved_model modules_example env_example
                 (Some ''/models/m'') 1 (Some [''serve'']) None no_kwargs world_example))
              = files world_example"
    by (rule conjunct1)
  from th have B: "list_all (\<lambda>e. e = InProcessConvert)
     (new_events world_example
        (snd (convert_saved_model modules_example env_example (Some ''/models/m'') 1
                (Some [''serve'']) None no_kwargs world_example)))"
    by (elim conjE)
  from th mf tf have C: "new_events world_example
     (snd (convert_saved_model modules_example env_example (Some ''/models/m'') 1
             (Some [''serve'']) None no_kwargs world_example)) = [InProcessConvert]"
    by blast
  show ?thesis using A B C by (intro conjI)
qed

end
